theory Spec2Isabelle
  imports Main "HOL-Library.Sublist"
begin

section \<open>The notebooks as data\<close>

text \<open>
  The repository consists of Jupyter notebooks. A notebook is a list of cells; a code cell
  holds Python (or, after a leading \<^verbatim>\<open>!\<close>, a shell command line), its execution count and
  its recorded outputs. The code cells are transcribed statement by statement into the
  abstract syntax below; comments are not statements and are left out. Markdown cells keep
  their position in the cell list, without their text. Of the recorded outputs, the lines
  of the output streams are kept; a displayed value is kept as \<open>ExecuteResult\<close>, without
  its text.

  Expressions: a keyword argument \<^verbatim>\<open>k=v\<close> of a call is the argument \<open>Kw k v\<close>, an entry
  \<^verbatim>\<open>k: v\<close> of a dictionary display is \<open>Item k v\<close>.
\<close>

datatype expr =
    Name string
  | Str string
  | Num int
  | BoolC bool
  | Attr expr string
  | Call expr "expr list"
  | Kw string expr
  | Subscript expr expr
  | ListE "expr list"
  | TupleE "expr list"
  | DictE "expr list"
  | Item expr expr

text \<open>
  Statements. The notebooks only use the first five forms; the compound forms of Python
  (definitions, loops, conditionals, exception handling, context managers) and the
  \<^verbatim>\<open>raise\<close> statement are part of the syntax so that their absence is a property of the
  data and not of the type.
\<close>

datatype compound_kind =
  FunctionDef | AsyncFunctionDef | ClassDef | For | While | If | Try | With

datatype stmt =
    Import string "string option"
  | FromImport string "string list"
  | Assign expr expr
  | ExprStmt expr
  | Shell "string list"
  | Raise expr
  | Compound compound_kind "stmt list"

datatype stream_name = Stdout | Stderr

datatype cell_output =
    Stream stream_name "string list"
  | ExecuteResult

datatype cell =
    Markdown
  | Code nat "stmt list" "cell_output list"

subsection \<open>IBD-Tutorial-QIIME2-API.ipynb\<close>

definition ibd_tutorial_cell_2 :: cell where
  \<open>ibd_tutorial_cell_2 = Code 3
    [Import ''os'' None,
     Import ''warnings'' None,
     Import ''qiime2'' (Some ''q2''),
     ExprStmt
       (Call (Attr (Name ''warnings'') ''filterwarnings'')
         [Str ''ignore'', Kw ''category'' (Name ''DeprecationWarning'')]),
     ExprStmt
       (Call (Attr (Name ''warnings'') ''simplefilter'')
         [Kw ''action'' (Str ''ignore''), Kw ''category'' (Name ''FutureWarning'')]),
     Assign (Name ''table'')
       (Call (Attr (Attr (Name ''q2'') ''Artifact'') ''load'')
         [Str ''IBD-2538/data/table.qza'']),
     Assign (Name ''rarefied_table'')
       (Call (Attr (Attr (Name ''q2'') ''Artifact'') ''load'')
         [Str ''IBD-2538/data/rarefied-table.qza'']),
     Assign (Name ''metadata'')
       (Call (Attr (Attr (Name ''q2'') ''Metadata'') ''load'')
         [Str ''IBD-2538/data/metadata.tsv'']),
     Assign (Name ''tree'')
       (Call (Attr (Attr (Name ''q2'') ''Artifact'') ''load'')
         [Str ''IBD-2538/data/sepp-insertion-tree.qza'']),
     Assign (Name ''taxonomy'')
       (Call (Attr (Attr (Name ''q2'') ''Artifact'') ''load'')
         [Str ''IBD-2538/data/taxonomy.qza''])]
    []\<close>

definition ibd_tutorial_cell_4 :: cell where
  \<open>ibd_tutorial_cell_4 = Code 19
    [FromImport ''qiime2.plugins.gemelli.actions'' [''rpca''],
     FromImport ''qiime2.plugins.emperor.actions'' [''plot'', ''biplot''],
     FromImport ''qiime2.plugins.diversity.actions'' [''beta_phylogenetic'', ''pcoa'']]
    []\<close>

definition ibd_tutorial_cell_5 :: cell where
  \<open>ibd_tutorial_cell_5 = Code 20
    [Assign (Name ''unweighted_unifrac_distance'')
       (Call (Name ''beta_phylogenetic'')
         [Name ''rarefied_table'', Name ''tree'', Str ''unweighted_unifrac'']),
     Assign (Name ''weighted_unifrac_distance'')
       (Call (Name ''beta_phylogenetic'')
         [Name ''rarefied_table'', Name ''tree'', Str ''weighted_unifrac'']),
     Assign (Name ''unweighted_unifrac_pcoa'')
       (Call (Name ''pcoa'') [Attr (Name ''unweighted_unifrac_distance'') ''distance_matrix'']),
     Assign (Name ''weighted_unifrac_pcoa'')
       (Call (Name ''pcoa'') [Attr (Name ''weighted_unifrac_distance'') ''distance_matrix'']),
     Assign (Name ''unweighted_unifrac_pcoa_plot'')
       (Call (Name ''plot'')
         [Attr (Name ''unweighted_unifrac_pcoa'') ''pcoa'', Name ''metadata'']),
     Assign (Name ''weighted_unifrac_pcoa_plot'')
       (Call (Name ''plot'')
         [Attr (Name ''weighted_unifrac_pcoa'') ''pcoa'', Name ''metadata'']),
     Assign (TupleE [Name ''rpca_biplot'', Name ''rpca_distance''])
       (Call (Name ''rpca'') [Name ''table'', Kw ''min_sample_count'' (Num 5000)]),
     Assign (Name ''rpca_biplot_emperor'')
       (Call (Name ''biplot'') [Name ''rpca_biplot'', Name ''metadata'']),
     Assign (Name ''output_path'') (Str ''IBD-2538/core-metric-output''),
     ExprStmt
       (Call (Attr (Attr (Name ''unweighted_unifrac_pcoa_plot'') ''visualization'') ''save'')
         [Call (Attr (Attr (Name ''os'') ''path'') ''join'')
            [Name ''output_path'', Str ''unweighted-unifrac-distance-pcoa.qzv'']]),
     ExprStmt
       (Call (Attr (Attr (Name ''weighted_unifrac_pcoa_plot'') ''visualization'') ''save'')
         [Call (Attr (Attr (Name ''os'') ''path'') ''join'')
            [Name ''output_path'', Str ''weighted-unifrac-distance-pcoa.qzv'']]),
     ExprStmt
       (Call (Attr (Attr (Name ''rpca_biplot_emperor'') ''visualization'') ''save'')
         [Call (Attr (Attr (Name ''os'') ''path'') ''join'')
            [Name ''output_path'', Str ''RPCA-biplot.qzv'']])]
    [Stream Stderr
       [(''/Users/cameronmartino/miniconda2/envs/qiime2-2019.7/lib/python3.6/site-packages/'' @
            ''skbio/stats/ordination/_principal_coordinate_analysis.py:152: RuntimeWarning: Th'' @
            ''e result contains negative eigenvalues. Please compare their magnitude with the '' @
            ''magnitude of some of the largest positive eigenvalues. If the negative ones are '' @
            (''smaller, it'' @ [CHR 0x27] @ ''s probably safe to ignore them, but if they are large in magnitude, '') @
            (''the results won'' @ [CHR 0x27] @ ''t be useful. See the Notes section for more details. The smalles'') @
            ''t eigenvalue is -0.05789944306076458 and the largest is 12.717111053172024.''),
        ''  RuntimeWarning'',
        (''/Users/cameronmartino/miniconda2/envs/qiime2-2019.7/lib/python3.6/site-packages/'' @
            ''skbio/stats/ordination/_principal_coordinate_analysis.py:152: RuntimeWarning: Th'' @
            ''e result contains negative eigenvalues. Please compare their magnitude with the '' @
            ''magnitude of some of the largest positive eigenvalues. If the negative ones are '' @
            (''smaller, it'' @ [CHR 0x27] @ ''s probably safe to ignore them, but if they are large in magnitude, '') @
            (''the results won'' @ [CHR 0x27] @ ''t be useful. See the Notes section for more details. The smalles'') @
            ''t eigenvalue is -0.9329142170862078 and the largest is 24.591847406777042.''),
        ''  RuntimeWarning''],
     ExecuteResult]\<close>

definition ibd_tutorial_cell_11 :: cell where
  \<open>ibd_tutorial_cell_11 = Code 23
    [FromImport ''qiime2.plugins.gemelli.actions'' [''ctf''],
     Assign (Name ''ctf_results'')
       (Call (Name ''ctf'')
         [Name ''table'',
          Name ''metadata'',
          Str ''host_subject_id'',
          Str ''timepoint'',
          Kw ''feature_metadata''
            (Call (Attr (Name ''taxonomy'') ''view'') [Attr (Name ''q2'') ''Metadata''])]),
     ExprStmt (Name ''ctf_results'')]
    [ExecuteResult]\<close>

definition ibd_tutorial_cell_14 :: cell where
  \<open>ibd_tutorial_cell_14 = Code 7
    [Import ''pandas'' (Some ''pd''),
     FromImport ''qiime2'' [''Metadata''],
     Assign (Name ''mf'')
       (Call (Attr (Name ''pd'') ''read_csv'')
         [Str ''IBD-2538/data/metadata.tsv'',
          Kw ''sep'' (Str [CHR 0x09]),
          Kw ''index_col'' (Num 0)]),
     Assign (Name ''mf'')
       (Call (Attr (Call (Attr (Name ''mf'') ''groupby'') [Str ''host_subject_id'']) ''agg'')
         [DictE
            [Item (Str ''ibd'') (Str ''first''),
             Item (Str ''active_disease'') (Str ''first'')]]),
     Assign (Attr (Attr (Name ''mf'') ''index'') ''name'') (Str ''#SampleID''),
     ExprStmt
       (Call (Attr (Name ''mf'') ''to_csv'')
         [Str ''IBD-2538/data/subject-metadata.tsv'', Kw ''sep'' (Str [CHR 0x09])]),
     ExprStmt (Call (Attr (Name ''mf'') ''head'') [Num 5])]
    [ExecuteResult]\<close>

definition ibd_tutorial_cell_16 :: cell where
  \<open>ibd_tutorial_cell_16 = Code 9
    [Assign (Name ''subject_biplot_emperor'')
       (Call (Name ''biplot'')
         [Attr (Name ''ctf_results'') ''subject_biplot'',
          Call (Attr (Name ''q2'') ''Metadata'') [Name ''mf''],
          Kw ''feature_metadata''
            (Call (Attr (Name ''taxonomy'') ''view'') [Attr (Name ''q2'') ''Metadata'']),
          Kw ''number_of_features'' (Num 100)]),
     ExprStmt
       (Call (Attr (Attr (Name ''subject_biplot_emperor'') ''visualization'') ''save'')
         [Str ''IBD-2538/ctf-results/subject_biplot.qzv''])]
    []\<close>

definition ibd_tutorial_cell_18 :: cell where
  \<open>ibd_tutorial_cell_18 = Code 22
    [FromImport ''qiime2.plugins.qurro.actions'' [''loading_plot''],
     Assign (Name ''qurro_plot'')
       (Call (Name ''loading_plot'')
         [Attr (Name ''ctf_results'') ''subject_biplot'',
          Name ''table'',
          Name ''metadata'',
          Kw ''feature_metadata''
            (Call (Attr (Name ''taxonomy'') ''view'') [Attr (Name ''q2'') ''Metadata''])]),
     ExprStmt
       (Call (Attr (Attr (Name ''qurro_plot'') ''visualization'') ''save'')
         [Str ''IBD-2538/ctf-results/qurro.qzv''])]
    [Stream Stdout
       [''176 sample(s) in the sample metadata file were not present in the BIOM table.'',
        ''These sample(s) have been removed from the visualization.''],
     ExecuteResult]\<close>

definition ibd_tutorial_cell_20 :: cell where
  \<open>ibd_tutorial_cell_20 = Code 8
    [Import ''pandas'' (Some ''pd''),
     Assign (Name ''metadata_one'')
       (Call (Attr (Name ''pd'') ''read_csv'')
         [Str ''IBD-2538/data/metadata.tsv'',
          Kw ''sep'' (Str [CHR 0x09]),
          Kw ''index_col'' (Num 0)]),
     Assign (Name ''metadata_two'')
       (Subscript
         (Call (Attr (Name ''pd'') ''read_csv'')
           [Str ''IBD-2538/ctf-results/sample_plot_data.tsv'',
            Kw ''sep'' (Str [CHR 0x09]),
            Kw ''index_col'' (Num 0)])
         (ListE [Str ''Current_Natural_Log_Ratio''])),
     Assign (Name ''log_ratio_metdata'')
       (Call (Attr (Name ''pd'') ''concat'')
         [ListE [Name ''metadata_two'', Name ''metadata_one''], Kw ''axis'' (Num 1)]),
     Assign (Name ''log_ratio_metdata'')
       (Call (Attr (Name ''log_ratio_metdata'') ''dropna'')
         [Kw ''subset'' (ListE [Str ''Current_Natural_Log_Ratio''])]),
     Assign (Attr (Name ''log_ratio_metdata'') ''index'')
       (Call (Attr (Attr (Name ''log_ratio_metdata'') ''index'') ''astype'') [Name ''str'']),
     Assign (Name ''log_ratio_metdata'')
       (Subscript (Name ''log_ratio_metdata'')
         (ListE
           [Str ''timepoint'',
            Str ''host_subject_id'',
            Str ''ibd'',
            Str ''Current_Natural_Log_Ratio''])),
     Assign (Attr (Attr (Name ''log_ratio_metdata'') ''index'') ''name'') (Str ''#SampleID''),
     ExprStmt
       (Call (Attr (Name ''log_ratio_metdata'') ''to_csv'')
         [Str ''IBD-2538/ctf-results/merged_sample_plot_data.tsv'',
          Kw ''sep'' (Str [CHR 0x09])]),
     ExprStmt (Call (Attr (Name ''log_ratio_metdata'') ''head'') [Num 2])]
    [ExecuteResult]\<close>

definition ibd_tutorial_cell_22 :: cell where
  \<open>ibd_tutorial_cell_22 = Code 14
    [FromImport ''qiime2.plugins.longitudinal.actions''
       [''volatility'', ''linear_mixed_effects''],
     Assign (Name ''temporal_plot'')
       (Call (Name ''volatility'')
         [Call (Attr (Name ''q2'') ''Metadata'') [Name ''log_ratio_metdata''],
          Str ''timepoint'',
          Kw ''individual_id_column'' (Str ''host_subject_id''),
          Kw ''default_group_column'' (Str ''ibd''),
          Kw ''default_metric'' (Str ''Current_Natural_Log_Ratio'')]),
     ExprStmt
       (Call (Attr (Attr (Name ''temporal_plot'') ''visualization'') ''save'')
         [Str ''IBD-2538/ctf-results/log_ratio_plot.qzv''])]
    []\<close>

definition ibd_tutorial_cell_24 :: cell where
  \<open>ibd_tutorial_cell_24 = Code 15
    [Assign (Name ''lme_plot'')
       (Call (Name ''linear_mixed_effects'')
         [Call (Attr (Name ''q2'') ''Metadata'') [Name ''log_ratio_metdata''],
          Str ''timepoint'',
          Kw ''individual_id_column'' (Str ''host_subject_id''),
          Kw ''group_columns'' (Str ''ibd''),
          Kw ''metric'' (Str ''Current_Natural_Log_Ratio'')]),
     ExprStmt
       (Call (Attr (Attr (Name ''lme_plot'') ''visualization'') ''save'')
         [Str ''IBD-2538/ctf-results/lme_log_ratio.qzv''])]
    [Stream Stderr
       [(''/Users/cmartino/miniconda3/envs/qiime2-2021.2.songbird.mmvec/lib/python3.6/site-'' @
            ''packages/q2_longitudinal/_longitudinal.py:291: UserWarning: This is only a warni'' @
            ''ng, and the results of this action are still valid. The column name "predicted C'' @
            ''urrent_Natural_Log_Ratio" already exists in your metadata file. Any "raw" metada'' @
            ''ta that can be downloaded from the resulting visualization will contain overwrit'' @
            ''ten values for this metadata column, not the original values.''),
        ''  warnings.warn(warning, UserWarning)'']]\<close>

definition ibd_tutorial :: \<open>cell list\<close> where
  \<open>ibd_tutorial = [Markdown, Markdown, ibd_tutorial_cell_2, Markdown,
     ibd_tutorial_cell_4, ibd_tutorial_cell_5, Markdown, Markdown, Markdown, Markdown,
     Markdown, ibd_tutorial_cell_11, Markdown, Markdown, ibd_tutorial_cell_14, Markdown,
     ibd_tutorial_cell_16, Markdown, ibd_tutorial_cell_18, Markdown,
     ibd_tutorial_cell_20, Markdown, ibd_tutorial_cell_22, Markdown,
     ibd_tutorial_cell_24, Markdown]\<close>

subsection \<open>Phylogenetic-IBD-Tutorial-QIIME2-API.ipynb\<close>

definition phylo_ibd_tutorial_cell_2 :: cell where
  \<open>phylo_ibd_tutorial_cell_2 = Code 6
    [Import ''os'' None,
     Import ''warnings'' None,
     Import ''qiime2'' (Some ''q2''),
     ExprStmt
       (Call (Attr (Name ''warnings'') ''filterwarnings'')
         [Str ''ignore'', Kw ''category'' (Name ''DeprecationWarning'')]),
     ExprStmt
       (Call (Attr (Name ''warnings'') ''simplefilter'')
         [Kw ''action'' (Str ''ignore''), Kw ''category'' (Name ''FutureWarning'')]),
     Assign (Name ''table'')
       (Call (Attr (Attr (Name ''q2'') ''Artifact'') ''load'')
         [Str ''IBD-2538/data/table.qza'']),
     Assign (Name ''rarefied_table'')
       (Call (Attr (Attr (Name ''q2'') ''Artifact'') ''load'')
         [Str ''IBD-2538/data/rarefied-table.qza'']),
     Assign (Name ''metadata'')
       (Call (Attr (Attr (Name ''q2'') ''Metadata'') ''load'')
         [Str ''IBD-2538/data/metadata.tsv'']),
     Assign (Name ''tree'')
       (Call (Attr (Attr (Name ''q2'') ''Artifact'') ''load'')
         [Str ''IBD-2538/data/sepp-insertion-tree.qza'']),
     Assign (Name ''taxonomy'')
       (Call (Attr (Attr (Name ''q2'') ''Artifact'') ''load'')
         [Str ''IBD-2538/data/taxonomy.qza''])]
    []\<close>

definition phylo_ibd_tutorial_cell_4 :: cell where
  \<open>phylo_ibd_tutorial_cell_4 = Code 7
    [FromImport ''qiime2.plugins.gemelli.actions'' [''phylogenetic_ctf_with_taxonomy''],
     FromImport ''qiime2.plugins.fragment_insertion.methods'' [''filter_features''],
     Assign (Name ''table'')
       (Attr (Call (Name ''filter_features'') [Name ''table'', Name ''tree''])
         ''filtered_table''),
     Assign (Name ''ctf_results'')
       (Call (Name ''phylogenetic_ctf_with_taxonomy'')
         [Name ''table'',
          Name ''tree'',
          Call (Attr (Name ''taxonomy'') ''view'') [Attr (Name ''q2'') ''Metadata''],
          Name ''metadata'',
          Str ''host_subject_id'',
          Str ''timepoint'',
          Kw ''min_feature_frequency'' (Num 10)]),
     ExprStmt (Name ''ctf_results'')]
    [ExecuteResult]\<close>

definition phylo_ibd_tutorial_cell_7 :: cell where
  \<open>phylo_ibd_tutorial_cell_7 = Code 8
    [Import ''pandas'' (Some ''pd''),
     FromImport ''qiime2'' [''Metadata''],
     Import ''numpy'' (Some ''np''),
     FromImport ''biom'' [''Table''],
     FromImport ''skbio'' [''OrdinationResults''],
     Assign (Name ''mf'')
       (Call (Attr (Name ''pd'') ''read_csv'')
         [Str ''IBD-2538/data/metadata.tsv'',
          Kw ''sep'' (Str [CHR 0x09]),
          Kw ''index_col'' (Num 0)]),
     Assign (Name ''mf'')
       (Call (Attr (Call (Attr (Name ''mf'') ''groupby'') [Str ''host_subject_id'']) ''agg'')
         [DictE
            [Item (Str ''ibd'') (Str ''first''),
             Item (Str ''active_disease'') (Str ''first'')]]),
     Assign (Attr (Attr (Name ''mf'') ''index'') ''name'') (Str ''#SampleID''),
     ExprStmt
       (Call (Attr (Name ''mf'') ''to_csv'')
         [Str ''IBD-2538/data/subject-metadata.tsv'', Kw ''sep'' (Str [CHR 0x09])]),
     ExprStmt (Call (Attr (Name ''mf'') ''head'') [Num 5])]
    [ExecuteResult]\<close>

definition phylo_ibd_tutorial_cell_8 :: cell where
  \<open>phylo_ibd_tutorial_cell_8 = Code 9
    [Assign (Name ''phylo_ctf_taxonomy'')
       (Call
         (Attr
           (Call (Attr (Attr (Name ''ctf_results'') ''t2t_taxonomy'') ''view'')
             [Attr (Name ''q2'') ''Metadata''])
           ''to_dataframe'')
         []),
     Assign (Name ''phylo_ctf_feature_loadings'')
       (Call
         (Attr
           (Attr
             (Call (Attr (Attr (Name ''ctf_results'') ''subject_biplot'') ''view'')
               [Name ''OrdinationResults''])
             ''features'')
           ''rename'')
         [DictE
            [Item (Num 0) (Str ''PC1''),
             Item (Num 1) (Str ''PC2''),
             Item (Num 2) (Str ''PC3'')],
          Kw ''axis'' (Num 1)]),
     Assign (Name ''phylo_ctf_taxonomy_and_loadings'')
       (Call (Attr (Name ''pd'') ''concat'')
         [ListE [Name ''phylo_ctf_taxonomy'', Name ''phylo_ctf_feature_loadings''],
          Kw ''axis'' (Num 1)]),
     Assign (Attr (Attr (Name ''phylo_ctf_taxonomy_and_loadings'') ''index'') ''name'')
       (Str ''featureid''),
     ExprStmt (Call (Attr (Name ''phylo_ctf_taxonomy_and_loadings'') ''head'') [Num 5])]
    [ExecuteResult]\<close>

definition phylo_ibd_tutorial_cell_10 :: cell where
  \<open>phylo_ibd_tutorial_cell_10 = Code 11
    [FromImport ''qiime2.plugins.empress.actions'' [''community_plot''],
     Assign (Name ''joint_tree_biplot'')
       (Call (Name ''community_plot'')
         [Attr (Name ''ctf_results'') ''counts_by_node_tree'',
          Attr (Name ''ctf_results'') ''subject_table'',
          Call (Attr (Name ''q2'') ''Metadata'') [Name ''mf''],
          Kw ''pcoa'' (Attr (Name ''ctf_results'') ''subject_biplot''),
          Kw ''feature_metadata''
            (Call (Attr (Name ''q2'') ''Metadata'') [Name ''phylo_ctf_taxonomy_and_loadings'']),
          Kw ''number_of_features'' (Num 50),
          Kw ''ignore_missing_samples'' (BoolC False),
          Kw ''filter_extra_samples'' (BoolC False),
          Kw ''filter_missing_features'' (BoolC True)]),
     ExprStmt
       (Call (Attr (Attr (Name ''joint_tree_biplot'') ''visualization'') ''save'')
         [Str ''IBD-2538/ctf-results/empress.qzv''])]
    []\<close>

definition phylo_ibd_tutorial_cell_11 :: cell where
  \<open>phylo_ibd_tutorial_cell_11 = Code 8
    [FromImport ''qiime2.plugins.qurro.actions'' [''loading_plot''],
     Assign (Name ''qurro_plot'')
       (Call (Name ''loading_plot'')
         [Attr (Name ''ctf_results'') ''subject_biplot'',
          Attr (Name ''ctf_results'') ''counts_by_node'',
          Name ''metadata'',
          Kw ''feature_metadata''
            (Call (Attr (Attr (Name ''ctf_results'') ''t2t_taxonomy'') ''view'')
              [Attr (Name ''q2'') ''Metadata''])]),
     ExprStmt
       (Call (Attr (Attr (Name ''qurro_plot'') ''visualization'') ''save'')
         [Str ''IBD-2538/ctf-results/qurro.qzv''])]
    [ExecuteResult]\<close>

definition phylo_ibd_tutorial_cell_13 :: cell where
  \<open>phylo_ibd_tutorial_cell_13 = Code 49
    [Import ''pandas'' (Some ''pd''),
     Assign (Name ''metadata_one'')
       (Call (Attr (Name ''pd'') ''read_csv'')
         [Str ''IBD-2538/data/metadata.tsv'',
          Kw ''sep'' (Str [CHR 0x09]),
          Kw ''index_col'' (Num 0)]),
     Assign (Name ''metadata_two'')
       (Subscript
         (Call (Attr (Name ''pd'') ''read_csv'')
           [Str ''IBD-2538/ctf-results/sample_plot_data.tsv'',
            Kw ''sep'' (Str [CHR 0x09]),
            Kw ''index_col'' (Num 0)])
         (ListE [Str ''Current_Natural_Log_Ratio''])),
     Assign (Name ''log_ratio_metdata'')
       (Call (Attr (Name ''pd'') ''concat'')
         [ListE [Name ''metadata_two'', Name ''metadata_one''], Kw ''axis'' (Num 1)]),
     Assign (Name ''log_ratio_metdata'')
       (Call (Attr (Name ''log_ratio_metdata'') ''dropna'')
         [Kw ''subset'' (ListE [Str ''Current_Natural_Log_Ratio''])]),
     Assign (Attr (Name ''log_ratio_metdata'') ''index'')
       (Call (Attr (Attr (Name ''log_ratio_metdata'') ''index'') ''astype'') [Name ''str'']),
     Assign (Name ''log_ratio_metdata'')
       (Subscript (Name ''log_ratio_metdata'')
         (ListE
           [Str ''timepoint'',
            Str ''host_subject_id'',
            Str ''ibd'',
            Str ''Current_Natural_Log_Ratio''])),
     Assign (Attr (Attr (Name ''log_ratio_metdata'') ''index'') ''name'') (Str ''#SampleID''),
     ExprStmt
       (Call (Attr (Name ''log_ratio_metdata'') ''to_csv'')
         [Str ''IBD-2538/ctf-results/merged_sample_plot_data.tsv'',
          Kw ''sep'' (Str [CHR 0x09])]),
     ExprStmt (Call (Attr (Name ''log_ratio_metdata'') ''head'') [Num 2])]
    [ExecuteResult]\<close>

definition phylo_ibd_tutorial_cell_15 :: cell where
  \<open>phylo_ibd_tutorial_cell_15 = Code 51
    [FromImport ''qiime2.plugins.longitudinal.actions''
       [''volatility'', ''linear_mixed_effects''],
     Assign (Name ''temporal_plot'')
       (Call (Name ''volatility'')
         [Call (Attr (Name ''q2'') ''Metadata'') [Name ''log_ratio_metdata''],
          Str ''timepoint'',
          Kw ''individual_id_column'' (Str ''host_subject_id''),
          Kw ''default_group_column'' (Str ''ibd''),
          Kw ''default_metric'' (Str ''Current_Natural_Log_Ratio'')]),
     ExprStmt
       (Call (Attr (Attr (Name ''temporal_plot'') ''visualization'') ''save'')
         [Str ''IBD-2538/ctf-results/log_ratio_plot.qzv''])]
    [ExecuteResult]\<close>

definition phylo_ibd_tutorial_cell_17 :: cell where
  \<open>phylo_ibd_tutorial_cell_17 = Code 53
    [Assign (Name ''lme_plot'')
       (Call (Name ''linear_mixed_effects'')
         [Call (Attr (Name ''q2'') ''Metadata'') [Name ''log_ratio_metdata''],
          Str ''timepoint'',
          Kw ''individual_id_column'' (Str ''host_subject_id''),
          Kw ''group_columns'' (Str ''ibd''),
          Kw ''metric'' (Str ''Current_Natural_Log_Ratio'')]),
     ExprStmt
       (Call (Attr (Attr (Name ''lme_plot'') ''visualization'') ''save'')
         [Str ''IBD-2538/ctf-results/lme_log_ratio.qzv''])]
    [Stream Stderr
       [(''/Users/cmartino/miniconda3/envs/qiime2-2021.2.songbird.mmvec/lib/python3.6/site-'' @
            ''packages/q2_longitudinal/_longitudinal.py:291: UserWarning: This is only a warni'' @
            ''ng, and the results of this action are still valid. The column name "predicted C'' @
            ''urrent_Natural_Log_Ratio" already exists in your metadata file. Any "raw" metada'' @
            ''ta that can be downloaded from the resulting visualization will contain overwrit'' @
            ''ten values for this metadata column, not the original values.''),
        ''  warnings.warn(warning, UserWarning)''],
     ExecuteResult]\<close>

definition phylo_ibd_tutorial :: \<open>cell list\<close> where
  \<open>phylo_ibd_tutorial = [Markdown, Markdown, phylo_ibd_tutorial_cell_2, Markdown,
     phylo_ibd_tutorial_cell_4, Markdown, Markdown, phylo_ibd_tutorial_cell_7,
     phylo_ibd_tutorial_cell_8, Markdown, phylo_ibd_tutorial_cell_10,
     phylo_ibd_tutorial_cell_11, Markdown, phylo_ibd_tutorial_cell_13, Markdown,
     phylo_ibd_tutorial_cell_15, Markdown, phylo_ibd_tutorial_cell_17, Markdown]\<close>

subsection \<open>Phylogenetic-RPCA-moving-pictures.ipynb, document 1\<close>

definition phylo_rpca_doc_cell_2 :: cell where
  \<open>phylo_rpca_doc_cell_2 = Code 1
    [Shell [''cd'', ''qiime2-moving-pictures-tutorial'']]
    []\<close>

definition phylo_rpca_doc_cell_4 :: cell where
  \<open>phylo_rpca_doc_cell_4 = Code 2
    [Shell [''qiime'', ''dev'', ''refresh-cache'']]
    [Stream Stdout
       [(([CHR 0x1B] @ ''[33mQIIME is caching your current deployment for improved performance. This may'') @
            ('' take a few moments and should only happen once per deployment.'' @ [CHR 0x1B] @ ''[0m'' @ [CHR 0x0D]))]]\<close>

definition phylo_rpca_doc_cell_5 :: cell where
  \<open>phylo_rpca_doc_cell_5 = Code 8
    [Shell
       [''qiime'',
        ''gemelli'',
        ''phylogenetic-rpca-with-taxonomy'',
        ''--i-table'',
        ''qiime2-moving-pictures-tutorial/table.qza'',
        ''--i-phylogeny'',
        ''qiime2-moving-pictures-tutorial/rooted-tree.qza'',
        ''--m-taxonomy-file'',
        ''qiime2-moving-pictures-tutorial/taxonomy.qza'',
        ''--p-min-feature-count'',
        ''10'',
        ''--p-min-sample-count'',
        ''500'',
        ''--o-biplot'',
        ''qiime2-moving-pictures-tutorial/phylo-ordination.qza'',
        ''--o-distance-matrix'',
        ''qiime2-moving-pictures-tutorial/phylo-distance.qza'',
        ''--o-counts-by-node-tree'',
        ''qiime2-moving-pictures-tutorial/phylo-tree.qza'',
        ''--o-counts-by-node'',
        ''qiime2-moving-pictures-tutorial/phylo-table.qza'',
        ''--o-t2t-taxonomy'',
        ''qiime2-moving-pictures-tutorial/phylo-taxonomy.qza'']]
    [Stream Stdout
       [(([CHR 0x1B] @ ''[32mSaved PCoAResults % Properties('' @ [CHR 0x27] @ ''biplot'' @ [CHR 0x27] @ '') to: qiime2-moving-pictures-tutoria'') @
            (''l/phylo-ordination.qza'' @ [CHR 0x1B] @ ''[0m'')),
        (([CHR 0x1B] @ ''[32mSaved DistanceMatrix to: qiime2-moving-pictures-tutorial/phylo-distance.qza'') @
            ([CHR 0x1B] @ ''[0m'')),
        (([CHR 0x1B] @ ''[32mSaved Phylogeny[Rooted] to: qiime2-moving-pictures-tutorial/phylo-tree.qza'' @ [CHR 0x1B]) @
            ''[0m''),
        (([CHR 0x1B] @ ''[32mSaved FeatureTable[Frequency] to: qiime2-moving-pictures-tutorial/phylo-tab'') @
            (''le.qza'' @ [CHR 0x1B] @ ''[0m'')),
        (([CHR 0x1B] @ ''[32mSaved FeatureData[Taxonomy] to: qiime2-moving-pictures-tutorial/phylo-taxon'') @
            (''omy.qza'' @ [CHR 0x1B] @ ''[0m''))]]\<close>

definition phylo_rpca_doc_cell_8 :: cell where
  \<open>phylo_rpca_doc_cell_8 = Code 11
    [Shell
       [''qiime'',
        ''empress'',
        ''community-plot'',
        ''--i-tree'',
        ''qiime2-moving-pictures-tutorial/phylo-tree.qza'',
        ''--i-feature-table'',
        ''qiime2-moving-pictures-tutorial/phylo-table.qza'',
        ''--i-pcoa'',
        ''qiime2-moving-pictures-tutorial/phylo-ordination.qza'',
        ''--m-sample-metadata-file'',
        ''qiime2-moving-pictures-tutorial/sample-metadata.tsv'',
        ''--m-feature-metadata-file'',
        ''qiime2-moving-pictures-tutorial/phylo-taxonomy.qza'',
        ''--p-filter-missing-features'',
        ''--p-number-of-features'',
        ''50'',
        ''--o-visualization'',
        ''qiime2-moving-pictures-tutorial/phylo-empress.qzv'']]
    [Stream Stdout
       [(([CHR 0x1B] @ ''[32mSaved Visualization to: qiime2-moving-pictures-tutorial/phylo-empress.qzv'' @ [CHR 0x1B] @ ''['') @
            (''0m'' @ [CHR 0x0D]))]]\<close>

definition phylo_rpca_doc_cell_11 :: cell where
  \<open>phylo_rpca_doc_cell_11 = Code 9
    [Shell
       [''qiime'',
        ''diversity'',
        ''beta-group-significance'',
        ''--i-distance-matrix'',
        ''qiime2-moving-pictures-tutorial/phylo-distance.qza'',
        ''--m-metadata-file'',
        ''qiime2-moving-pictures-tutorial/sample-metadata.tsv'',
        ''--m-metadata-column'',
        ''BodySite'',
        ''--p-method'',
        ''permanova'',
        ''--o-visualization'',
        ''qiime2-moving-pictures-tutorial/phylo-BodySite_significance.qzv'']]
    [Stream Stdout
       [(([CHR 0x1B] @ ''[32mSaved Visualization to: qiime2-moving-pictures-tutorial/phylo-BodySite_sign'') @
            (''ificance.qzv'' @ [CHR 0x1B] @ ''[0m'' @ [CHR 0x0D]))]]\<close>

definition phylo_rpca_doc_cell_14 :: cell where
  \<open>phylo_rpca_doc_cell_14 = Code 1
    [Shell
       [''qiime'',
        ''qurro'',
        ''loading-plot'',
        ''--i-ranks'',
        ''qiime2-moving-pictures-tutorial/phylo-ordination.qza'',
        ''--i-table'',
        ''qiime2-moving-pictures-tutorial/phylo-table.qza'',
        ''--m-sample-metadata-file'',
        ''qiime2-moving-pictures-tutorial/sample-metadata.tsv'',
        ''--m-feature-metadata-file'',
        ''qiime2-moving-pictures-tutorial/phylo-taxonomy.qza'',
        ''--o-visualization'',
        ''qiime2-moving-pictures-tutorial/phylo-qurro_plot.qzv'']]
    [Stream Stdout
       [(([CHR 0x1B] @ ''[32mSaved Visualization to: qiime2-moving-pictures-tutorial/phylo-qurro_plot.qz'') @
            (''v'' @ [CHR 0x1B] @ ''[0m'' @ [CHR 0x0D]))]]\<close>

definition phylo_rpca_doc :: \<open>cell list\<close> where
  \<open>phylo_rpca_doc = [Markdown, Markdown, phylo_rpca_doc_cell_2, Markdown,
     phylo_rpca_doc_cell_4, phylo_rpca_doc_cell_5, Markdown, Markdown,
     phylo_rpca_doc_cell_8, Markdown, Markdown, phylo_rpca_doc_cell_11, Markdown,
     Markdown, phylo_rpca_doc_cell_14, Markdown]\<close>

subsection \<open>Phylogenetic-RPCA-moving-pictures.ipynb, document 2\<close>

definition tempted_doc_cell_1 :: cell where
  \<open>tempted_doc_cell_1 = Code 1
    [Import ''os'' None,
     Import ''warnings'' None,
     Import ''qiime2'' (Some ''q2''),
     ExprStmt
       (Call (Attr (Name ''warnings'') ''filterwarnings'')
         [Str ''ignore'', Kw ''category'' (Name ''DeprecationWarning'')]),
     ExprStmt
       (Call (Attr (Name ''warnings'') ''simplefilter'')
         [Kw ''action'' (Str ''ignore''), Kw ''category'' (Name ''FutureWarning'')]),
     Assign (Name ''table'')
       (Call (Attr (Attr (Name ''q2'') ''Artifact'') ''load'')
         [Str ''ECAM-Qiita-10249/table.qza'']),
     Assign (Name ''metadata'')
       (Call (Attr (Attr (Name ''q2'') ''Metadata'') ''load'')
         [Str ''ECAM-Qiita-10249/metadata.tsv'']),
     Assign (Name ''tree'')
       (Call (Attr (Attr (Name ''q2'') ''Artifact'') ''load'')
         [Str ''ECAM-Qiita-10249/insertion-tree.qza'']),
     Assign (Name ''taxonomy'')
       (Call (Attr (Attr (Name ''q2'') ''Artifact'') ''load'')
         [Str ''ECAM-Qiita-10249/taxonomy.qza''])]
    []\<close>

definition tempted_doc_cell_3 :: cell where
  \<open>tempted_doc_cell_3 = Code 7
    [FromImport ''qiime2.plugins.gemelli.actions''
       [''tempted_factorize'', ''clr_transformation''],
     Assign (Name ''table_transformed'')
       (Attr (Call (Name ''clr_transformation'') [Name ''table'']) ''clr_table''),
     Assign (Name ''tempted_res'')
       (Call (Name ''tempted_factorize'')
         [Name ''table_transformed'',
          Name ''metadata'',
          Str ''host_subject_id'',
          Str ''month'']),
     ExprStmt (Name ''tempted_res'')]
    [ExecuteResult]\<close>

definition tempted_doc_cell_5 :: cell where
  \<open>tempted_doc_cell_5 = Code 8
    [Import ''pandas'' (Some ''pd''),
     FromImport ''qiime2'' [''Metadata''],
     Assign (Name ''mf'')
       (Call (Attr (Name ''pd'') ''read_csv'')
         [Str ''ECAM-Qiita-10249/metadata.tsv'',
          Kw ''sep'' (Str [CHR 0x09]),
          Kw ''index_col'' (Num 0)]),
     Assign (Name ''mf'')
       (Call (Attr (Call (Attr (Name ''mf'') ''groupby'') [Str ''host_subject_id'']) ''agg'')
         [DictE
            [Item (Str ''delivery'') (Str ''first''),
             Item (Str ''antiexposedall'') (Str ''first'')]]),
     Assign (Attr (Attr (Name ''mf'') ''index'') ''name'') (Str ''#SampleID''),
     Assign (Attr (Name ''mf'') ''index'')
       (Call (Attr (Attr (Name ''mf'') ''index'') ''astype'') [Name ''str'']),
     ExprStmt
       (Call (Attr (Name ''mf'') ''to_csv'')
         [Str ''ECAM-Qiita-10249/subject-metadata.tsv'', Kw ''sep'' (Str [CHR 0x09])]),
     ExprStmt (Call (Attr (Name ''mf'') ''head'') [Num 5])]
    [ExecuteResult]\<close>

definition tempted_doc_cell_7 :: cell where
  \<open>tempted_doc_cell_7 = Code 9
    [FromImport ''qiime2.plugins.emperor.visualizers'' [''biplot''],
     Assign (Name ''individual_biplot_emperor'')
       (Call (Name ''biplot'')
         [Attr (Name ''tempted_res'') ''individual_biplot'',
          Call (Name ''Metadata'') [Name ''mf''],
          Kw ''feature_metadata'' (Call (Attr (Name ''taxonomy'') ''view'') [Name ''Metadata'']),
          Kw ''number_of_features'' (Num 15)]),
     ExprStmt
       (Call (Attr (Attr (Name ''individual_biplot_emperor'') ''visualization'') ''save'')
         [Str ''ECAM-Qiita-10249/subject_biplot.qzv''])]
    [ExecuteResult]\<close>

definition tempted_doc_cell_9 :: cell where
  \<open>tempted_doc_cell_9 = Code 10
    [FromImport ''qiime2.plugins.qurro.actions'' [''loading_plot''],
     Assign (Name ''qurro_plot'')
       (Call (Name ''loading_plot'')
         [Attr (Name ''tempted_res'') ''individual_biplot'',
          Name ''table'',
          Name ''metadata'',
          Kw ''feature_metadata''
            (Call (Attr (Name ''taxonomy'') ''view'') [Attr (Name ''q2'') ''Metadata''])]),
     ExprStmt
       (Call (Attr (Attr (Name ''qurro_plot'') ''visualization'') ''save'')
         [Str ''ECAM-Qiita-10249/qurro.qzv''])]
    [Stream Stdout
       [''2961 feature(s) in the BIOM table were not present in the feature rankings.'',
        ''These feature(s) have been removed from the visualization.''],
     ExecuteResult]\<close>

definition tempted_doc_cell_11 :: cell where
  \<open>tempted_doc_cell_11 = Code 11
    [Import ''pandas'' (Some ''pd''),
     Assign (Name ''metadata_one'')
       (Call (Attr (Name ''pd'') ''read_csv'')
         [Str ''ECAM-Qiita-10249/metadata.tsv'',
          Kw ''sep'' (Str [CHR 0x09]),
          Kw ''index_col'' (Num 0)]),
     Assign (Name ''metadata_two'')
       (Subscript
         (Call (Attr (Name ''pd'') ''read_csv'')
           [Str ''ECAM-Qiita-10249/sample_plot_data.tsv'',
            Kw ''sep'' (Str [CHR 0x09]),
            Kw ''index_col'' (Num 0)])
         (ListE [Str ''Current_Log_Ratio''])),
     Assign (Name ''log_ratio_metdata'')
       (Call (Attr (Name ''pd'') ''concat'')
         [ListE [Name ''metadata_two'', Name ''metadata_one''], Kw ''axis'' (Num 1)]),
     Assign (Name ''log_ratio_metdata'')
       (Call (Attr (Name ''log_ratio_metdata'') ''dropna'')
         [Kw ''subset'' (ListE [Str ''Current_Log_Ratio''])]),
     Assign (Attr (Name ''log_ratio_metdata'') ''index'')
       (Call (Attr (Attr (Name ''log_ratio_metdata'') ''index'') ''astype'') [Name ''str'']),
     Assign (Name ''log_ratio_metdata'')
       (Subscript (Name ''log_ratio_metdata'')
         (ListE
           [Str ''month'',
            Str ''host_subject_id'',
            Str ''delivery'',
            Str ''Current_Log_Ratio''])),
     Assign (Attr (Attr (Name ''log_ratio_metdata'') ''index'') ''name'') (Str ''#SampleID''),
     ExprStmt
       (Call (Attr (Name ''log_ratio_metdata'') ''to_csv'')
         [Str ''ECAM-Qiita-10249/merged_sample_plot_data.tsv'', Kw ''sep'' (Str [CHR 0x09])]),
     ExprStmt (Call (Attr (Name ''log_ratio_metdata'') ''head'') [Num 2])]
    [ExecuteResult]\<close>

definition tempted_doc_cell_13 :: cell where
  \<open>tempted_doc_cell_13 = Code 12
    [FromImport ''qiime2.plugins.longitudinal.actions''
       [''volatility'', ''linear_mixed_effects''],
     Assign (Name ''temporal_plot'')
       (Call (Name ''volatility'')
         [Call (Attr (Name ''q2'') ''Metadata'') [Name ''log_ratio_metdata''],
          Str ''month'',
          Kw ''individual_id_column'' (Str ''host_subject_id''),
          Kw ''default_group_column'' (Str ''delivery''),
          Kw ''default_metric'' (Str ''Current_Log_Ratio'')]),
     ExprStmt
       (Call (Attr (Attr (Name ''temporal_plot'') ''visualization'') ''save'')
         [Str ''ECAM-Qiita-10249/log_ratio_plot.qzv''])]
    [ExecuteResult]\<close>

definition tempted_doc_cell_15 :: cell where
  \<open>tempted_doc_cell_15 = Code 13
    [Assign (Name ''lme_plot'')
       (Call (Name ''linear_mixed_effects'')
         [Call (Attr (Name ''q2'') ''Metadata'') [Name ''log_ratio_metdata''],
          Str ''month'',
          Kw ''individual_id_column'' (Str ''host_subject_id''),
          Kw ''group_columns'' (Str ''delivery''),
          Kw ''metric'' (Str ''Current_Log_Ratio'')]),
     ExprStmt
       (Call (Attr (Attr (Name ''lme_plot'') ''visualization'') ''save'')
         [Str ''ECAM-Qiita-10249/lme_log_ratio.qzv''])]
    [Stream Stderr
       [(''/Users/cameronmartino/miniconda2/envs/qiime2-2019.7/lib/python3.6/site-packages/'' @
            ''q2_longitudinal/_longitudinal.py:291: UserWarning: This is only a warning, and t'' @
            ''he results of this action are still valid. The column name "predicted Current_Lo'' @
            ''g_Ratio" already exists in your metadata file. Any "raw" metadata that can be do'' @
            ''wnloaded from the resulting visualization will contain overwritten values for th'' @
            ''is metadata column, not the original values.''),
        ''  warnings.warn(warning, UserWarning)''],
     ExecuteResult]\<close>

definition tempted_doc :: \<open>cell list\<close> where
  \<open>tempted_doc = [Markdown, tempted_doc_cell_1, Markdown, tempted_doc_cell_3,
     Markdown, tempted_doc_cell_5, Markdown, tempted_doc_cell_7, Markdown,
     tempted_doc_cell_9, Markdown, tempted_doc_cell_11, Markdown, tempted_doc_cell_13,
     Markdown, tempted_doc_cell_15, Markdown]\<close>

section \<open>Reading the notebooks\<close>

text \<open>
  The file Phylogenetic-RPCA-moving-pictures.ipynb holds two notebook documents, one after
  the other: the command-line tutorial and the TEMPTED tutorial. The notebook of that file
  is the cells of the first document followed by the cells of the second.
\<close>

definition phylo_rpca_moving_pictures :: "cell list" where
  "phylo_rpca_moving_pictures = phylo_rpca_doc @ tempted_doc"

definition notebooks :: "cell list list" where
  "notebooks = [ibd_tutorial, phylo_ibd_tutorial, phylo_rpca_moving_pictures]"

fun cell_source :: "cell \<Rightarrow> stmt list" where
  "cell_source Markdown = []"
| "cell_source (Code n ss outs) = ss"

fun cell_outputs :: "cell \<Rightarrow> cell_output list" where
  "cell_outputs Markdown = []"
| "cell_outputs (Code n ss outs) = outs"

text \<open>
  The statements of a notebook, in the order of its cells. The functions below look at
  these statements and not into the body of a compound statement; the notebooks have none.
\<close>

definition stmts_of :: "cell list \<Rightarrow> stmt list" where
  "stmts_of nb = concat (map cell_source nb)"

subsection \<open>Shapes of expressions\<close>

text \<open>\<^verbatim>\<open>obj.m(args)\<close>, \<^verbatim>\<open>f(args)\<close> and \<^verbatim>\<open>obj.a\<close>.\<close>

fun method_call :: "expr \<Rightarrow> (expr \<times> string \<times> expr list) option" where
  "method_call (Call (Attr obj m) args) = Some (obj, m, args)"
| "method_call _ = None"

fun function_call :: "expr \<Rightarrow> (string \<times> expr list) option" where
  "function_call (Call (Name f) args) = Some (f, args)"
| "function_call _ = None"

fun attribute_of :: "expr \<Rightarrow> (expr \<times> string) option" where
  "attribute_of (Attr obj a) = Some (obj, a)"
| "attribute_of _ = None"

text \<open>The value of the keyword argument \<open>k\<close> among the arguments of a call.\<close>

fun keyword_arg :: "string \<Rightarrow> expr list \<Rightarrow> expr option" where
  "keyword_arg k [] = None"
| "keyword_arg k (Kw k' v # args) = (if k = k' then Some v else keyword_arg k args)"
| "keyword_arg k (a # args) = keyword_arg k args"

text \<open>
  Every call \<^verbatim>\<open>f(args)\<close> of a plain name inside an expression, in evaluation order of the
  operands, the call itself last.
\<close>

fun calls_in :: "expr \<Rightarrow> (string \<times> expr list) list" where
  "calls_in (Name n) = []"
| "calls_in (Str s) = []"
| "calls_in (Num i) = []"
| "calls_in (BoolC b) = []"
| "calls_in (Attr e a) = calls_in e"
| "calls_in (Call f args) =
     calls_in f @ concat (map calls_in args) @
     (case f of Name n \<Rightarrow> [(n, args)] | _ \<Rightarrow> [])"
| "calls_in (Kw k e) = calls_in e"
| "calls_in (Subscript e i) = calls_in e @ calls_in i"
| "calls_in (ListE es) = concat (map calls_in es)"
| "calls_in (TupleE es) = concat (map calls_in es)"
| "calls_in (DictE es) = concat (map calls_in es)"
| "calls_in (Item k v) = calls_in k @ calls_in v"

fun stmt_calls :: "stmt \<Rightarrow> (string \<times> expr list) list" where
  "stmt_calls (Assign t v) = calls_in v @ calls_in t"
| "stmt_calls (ExprStmt e) = calls_in e"
| "stmt_calls (Raise e) = calls_in e"
| "stmt_calls _ = []"

subsection \<open>Imports and plugin actions\<close>

text \<open>The names a statement imports with \<^verbatim>\<open>from m import a, b\<close>, each with its module.\<close>

fun imported_from :: "stmt \<Rightarrow> (string \<times> string) list" where
  "imported_from (FromImport m ns) = map (\<lambda>n. (n, m)) ns"
| "imported_from _ = []"

definition from_imports :: "cell list \<Rightarrow> (string \<times> string) list" where
  "from_imports nb = concat (map imported_from (stmts_of nb))"

text \<open>
  The plugin framework exposes the actions of a plugin \<open>p\<close> to Python in the modules
  \<^verbatim>\<open>qiime2.plugins.p.actions\<close>, \<^verbatim>\<open>.methods\<close>, \<^verbatim>\<open>.visualizers\<close>, and to the shell as
  \<^verbatim>\<open>qiime p action\<close>.
\<close>

definition plugin_names :: "cell list \<Rightarrow> string list" where
  "plugin_names nb = map fst (filter (\<lambda>(n, m). prefix ''qiime2.plugins.'' m) (from_imports nb))"

definition names_from :: "string \<Rightarrow> cell list \<Rightarrow> string list" where
  "names_from module nb = map fst (filter (\<lambda>(n, m). m = module) (from_imports nb))"

text \<open>
  The command groups \<^verbatim>\<open>info\<close>, \<^verbatim>\<open>tools\<close> and \<^verbatim>\<open>dev\<close> of the \<^verbatim>\<open>qiime\<close> command are built
  into the command-line interface; any other group is a plugin.
\<close>

definition qiime_builtin_commands :: "string list" where
  "qiime_builtin_commands = [''info'', ''tools'', ''dev'']"

fun cli_action :: "string list \<Rightarrow> (string \<times> string \<times> string list) option" where
  "cli_action (q # p # a # opts) =
     (if q = ''qiime'' \<and> p \<notin> set qiime_builtin_commands then Some (p, a, opts) else None)"
| "cli_action _ = None"

fun shell_words :: "stmt \<Rightarrow> string list option" where
  "shell_words (Shell ws) = Some ws"
| "shell_words _ = None"

subsection \<open>Kinds of statements\<close>

datatype effect_kind =
    LoadArtifact
  | PluginAction
  | DataframeOp
  | ImportModule
  | WarningsConfig
  | WriteFile
  | ShellCommand
  | ConstantBinding
  | Display
  | Unclassified

definition dataframe_methods :: "string list" where
  "dataframe_methods =
     [''read_csv'', ''concat'', ''agg'', ''dropna'', ''head'', ''rename'', ''astype'',
      ''to_dataframe'']"

definition warnings_filter_functions :: "string list" where
  "warnings_filter_functions = [''filterwarnings'', ''simplefilter'']"

definition is_load :: "expr \<Rightarrow> bool" where
  "is_load e =
     (case method_call e of
        Some (obj, m, args) \<Rightarrow>
          m = ''load'' \<and> (obj = Attr (Name ''q2'') ''Artifact'' \<or> obj = Attr (Name ''q2'') ''Metadata'')
      | None \<Rightarrow> False)"

definition is_warnings_filter :: "expr \<Rightarrow> bool" where
  "is_warnings_filter e =
     (case method_call e of
        Some (obj, m, args) \<Rightarrow> obj = Name ''warnings'' \<and> m \<in> set warnings_filter_functions
      | None \<Rightarrow> False)"

definition is_write :: "expr \<Rightarrow> bool" where
  "is_write e =
     (case method_call e of
        Some (obj, m, args) \<Rightarrow> m = ''save'' \<or> m = ''to_csv''
      | None \<Rightarrow> False)"

text \<open>A call of an imported plugin action, or one output taken from its results.\<close>

definition is_plugin_call :: "string list \<Rightarrow> expr \<Rightarrow> bool" where
  "is_plugin_call plugins e =
     (case function_call e of
        Some (f, args) \<Rightarrow> f \<in> set plugins
      | None \<Rightarrow>
          (case attribute_of e of
             Some (obj, a) \<Rightarrow>
               (case function_call obj of Some (f, args) \<Rightarrow> f \<in> set plugins | None \<Rightarrow> False)
           | None \<Rightarrow> False))"

fun is_column_selection :: "expr \<Rightarrow> bool" where
  "is_column_selection (Subscript e (ListE cols)) = True"
| "is_column_selection _ = False"

definition is_dataframe_op :: "expr \<Rightarrow> bool" where
  "is_dataframe_op e =
     (is_column_selection e \<or>
      (case method_call e of
         Some (obj, m, args) \<Rightarrow> m \<in> set dataframe_methods
       | None \<Rightarrow> False))"

fun is_string_constant :: "expr \<Rightarrow> bool" where
  "is_string_constant (Str s) = True"
| "is_string_constant _ = False"

fun is_name :: "expr \<Rightarrow> bool" where
  "is_name (Name n) = True"
| "is_name _ = False"

definition value_kind :: "string list \<Rightarrow> expr \<Rightarrow> effect_kind" where
  "value_kind plugins e =
     (if is_load e then LoadArtifact
      else if is_warnings_filter e then WarningsConfig
      else if is_write e then WriteFile
      else if is_plugin_call plugins e then PluginAction
      else if is_dataframe_op e then DataframeOp
      else if is_string_constant e then ConstantBinding
      else if is_name e then Display
      else Unclassified)"

text \<open>
  An assignment to an attribute (\<^verbatim>\<open>mf.index.name = ...\<close>, \<^verbatim>\<open>df.index = ...\<close>) changes a
  dataframe in place.
\<close>

fun stmt_kind :: "string list \<Rightarrow> stmt \<Rightarrow> effect_kind" where
  "stmt_kind plugins (Import m a) = ImportModule"
| "stmt_kind plugins (FromImport m ns) = ImportModule"
| "stmt_kind plugins (Assign t v) =
     (case attribute_of t of Some (obj, a) \<Rightarrow> DataframeOp | None \<Rightarrow> value_kind plugins v)"
| "stmt_kind plugins (ExprStmt e) = value_kind plugins e"
| "stmt_kind plugins (Shell ws) =
     (case cli_action ws of Some act \<Rightarrow> PluginAction | None \<Rightarrow> ShellCommand)"
| "stmt_kind plugins (Raise e) = Unclassified"
| "stmt_kind plugins (Compound k body) = Unclassified"

definition cell_kinds :: "cell list \<Rightarrow> cell \<Rightarrow> effect_kind list" where
  "cell_kinds nb c = remdups (map (stmt_kind (plugin_names nb)) (cell_source c))"

definition kinds_used :: "cell list \<Rightarrow> effect_kind list" where
  "kinds_used nb = remdups (map (stmt_kind (plugin_names nb)) (stmts_of nb))"

text \<open>The three kinds of effect the specification allows a cell.\<close>

definition three_kinds :: "effect_kind list" where
  "three_kinds = [LoadArtifact, PluginAction, DataframeOp]"

definition only_three_kinds :: "cell list \<Rightarrow> cell \<Rightarrow> bool" where
  "only_three_kinds nb c = list_all (\<lambda>k. k \<in> set three_kinds) (cell_kinds nb c)"

subsection \<open>Invocations of plugin actions\<close>

text \<open>
  An action is invoked through the Python API, as a call of a name imported from a module
  of the plugin, or on the command line, as \<^verbatim>\<open>qiime plugin action options\<close>. The inputs of
  an invocation are its argument expressions (the value of a keyword argument), on the
  command line the values of the \<^verbatim>\<open>--i-\<close> and \<^verbatim>\<open>--m-\<close> options as string literals; its
  outputs are the names the call is assigned to, on the command line the values of the
  \<^verbatim>\<open>--o-\<close> options. The arguments and the options are kept as written.
\<close>

datatype channel = PythonAPI | CommandLine

record invocation =
  inv_cell :: nat
  inv_channel :: channel
  inv_plugin :: string
  inv_action :: string
  inv_args :: "expr list"
  inv_options :: "string list"
  inv_inputs :: "expr list"
  inv_outputs :: "expr list"

fun split_on :: "char \<Rightarrow> string \<Rightarrow> string list" where
  "split_on c [] = [[]]"
| "split_on c (x # xs) =
     (if x = c then [] # split_on c xs
      else (case split_on c xs of w # ws \<Rightarrow> (x # w) # ws | [] \<Rightarrow> [[x]]))"

definition plugin_of_module :: "string \<Rightarrow> string option" where
  "plugin_of_module m =
     (case split_on CHR ''.'' m of
        [q, p, plugin, kind] \<Rightarrow> if q = ''qiime2'' \<and> p = ''plugins'' then Some plugin else None
      | _ \<Rightarrow> None)"

text \<open>The plugin a name was imported from, by the last import of that name.\<close>

definition plugin_of_name :: "cell list \<Rightarrow> string \<Rightarrow> string option" where
  "plugin_of_name nb f =
     (case map_of (rev (from_imports nb)) f of
        Some m \<Rightarrow> plugin_of_module m
      | None \<Rightarrow> None)"

fun strip_kw :: "expr \<Rightarrow> expr" where
  "strip_kw (Kw k v) = v"
| "strip_kw e = e"

fun target_names :: "expr \<Rightarrow> expr list" where
  "target_names (Name n) = [Name n]"
| "target_names (TupleE es) = filter is_name es"
| "target_names _ = []"

fun assigned_names :: "stmt \<Rightarrow> expr list" where
  "assigned_names (Assign t v) = target_names t"
| "assigned_names _ = []"

text \<open>Command-line names are written with hyphens, Python names with underscores.\<close>

definition python_name :: "string \<Rightarrow> string" where
  "python_name a = map (\<lambda>c. if c = CHR ''-'' then CHR ''_'' else c) a"

fun option_values :: "string list \<Rightarrow> string list \<Rightarrow> string list" where
  "option_values ps (opt # v # rest) =
     (if list_ex (\<lambda>p. prefix p opt) ps then v # option_values ps rest
      else option_values ps (v # rest))"
| "option_values ps _ = []"


definition api_invocations :: "cell list \<Rightarrow> nat \<Rightarrow> stmt \<Rightarrow> invocation list" where
  "api_invocations nb i s =
     concat (map (\<lambda>(f, args).
        (case plugin_of_name nb f of
           Some p \<Rightarrow>
             [\<lparr>inv_cell = i, inv_channel = PythonAPI, inv_plugin = p, inv_action = f,
               inv_args = args, inv_options = [],
               inv_inputs = map strip_kw args, inv_outputs = assigned_names s\<rparr>]
         | None \<Rightarrow> [])) (stmt_calls s))"

definition cli_invocations :: "nat \<Rightarrow> stmt \<Rightarrow> invocation list" where
  "cli_invocations i s =
     (case shell_words s of
        Some ws \<Rightarrow>
          (case cli_action ws of
             Some (p, a, opts) \<Rightarrow>
               [\<lparr>inv_cell = i, inv_channel = CommandLine, inv_plugin = p,
                 inv_action = python_name a, inv_args = [], inv_options = opts,
                 inv_inputs = map Str (option_values [''--i-'', ''--m-''] opts),
                 inv_outputs = map Str (option_values [''--o-''] opts)\<rparr>]
           | None \<Rightarrow> [])
      | None \<Rightarrow> [])"

definition invocations :: "cell list \<Rightarrow> invocation list" where
  "invocations nb =
     concat (map (\<lambda>(i, c).
        concat (map (\<lambda>s. api_invocations nb i s @ cli_invocations i s) (cell_source c)))
        (zip [0..<length nb] nb))"

definition invoked :: "string \<Rightarrow> cell list \<Rightarrow> (channel \<times> string) list" where
  "invoked plugin nb =
     remdups (map (\<lambda>v. (inv_channel v, inv_action v))
       (filter (\<lambda>v. inv_plugin v = plugin) (invocations nb)))"

subsection \<open>The methods of the gemelli plugin\<close>

text \<open>
  The methods the specification names, and the actions of the plugin that run them.
  \<^verbatim>\<open>rpca\<close> is Robust Aitchison PCA without phylogeny; \<^verbatim>\<open>clr_transformation\<close> is the
  centred log-ratio transform, a preprocessing step and not a factorization.
\<close>

datatype gemelli_method = CTF | PhylogeneticCTF | PhylogeneticRPCA | TEMPTED | RPCA

definition method_of_action :: "string \<Rightarrow> gemelli_method option" where
  "method_of_action a =
     (if a = ''ctf'' then Some CTF
      else if a \<in> set [''phylogenetic_ctf'', ''phylogenetic_ctf_with_taxonomy'',
                        ''phylogenetic_ctf_without_taxonomy''] then Some PhylogeneticCTF
      else if a \<in> set [''phylogenetic_rpca'', ''phylogenetic_rpca_with_taxonomy'',
                        ''phylogenetic_rpca_without_taxonomy''] then Some PhylogeneticRPCA
      else if a = ''tempted_factorize'' then Some TEMPTED
      else if a = ''rpca'' then Some RPCA
      else None)"

definition named_methods :: "gemelli_method list" where
  "named_methods = [CTF, PhylogeneticCTF, PhylogeneticRPCA, TEMPTED]"

definition methods_run :: "cell list list \<Rightarrow> gemelli_method list" where
  "methods_run nbs =
     remdups (concat (map (\<lambda>nb.
       concat (map (\<lambda>(ch, a). case method_of_action a of Some m \<Rightarrow> [m] | None \<Rightarrow> [])
         (invoked ''gemelli'' nb))) nbs))"

definition channels_used :: "cell list list \<Rightarrow> channel list" where
  "channels_used nbs = remdups (concat (map (\<lambda>nb. map fst (invoked ''gemelli'' nb)) nbs))"

definition runs_exactly_named_methods :: "cell list list \<Rightarrow> bool" where
  "runs_exactly_named_methods nbs = (set (methods_run nbs) = set named_methods)"

subsection \<open>Interfaces to the environment\<close>

text \<open>Every method call \<^verbatim>\<open>obj.m(args)\<close> inside an expression.\<close>

fun method_calls_in :: "expr \<Rightarrow> (expr \<times> string \<times> expr list) list" where
  "method_calls_in (Name n) = []"
| "method_calls_in (Str s) = []"
| "method_calls_in (Num i) = []"
| "method_calls_in (BoolC b) = []"
| "method_calls_in (Attr e a) = method_calls_in e"
| "method_calls_in (Call f args) =
     method_calls_in f @ concat (map method_calls_in args) @
     (case f of Attr obj m \<Rightarrow> [(obj, m, args)] | _ \<Rightarrow> [])"
| "method_calls_in (Kw k e) = method_calls_in e"
| "method_calls_in (Subscript e i) = method_calls_in e @ method_calls_in i"
| "method_calls_in (ListE es) = concat (map method_calls_in es)"
| "method_calls_in (TupleE es) = concat (map method_calls_in es)"
| "method_calls_in (DictE es) = concat (map method_calls_in es)"
| "method_calls_in (Item k v) = method_calls_in k @ method_calls_in v"

fun stmt_method_calls :: "stmt \<Rightarrow> (expr \<times> string \<times> expr list) list" where
  "stmt_method_calls (Assign t v) = method_calls_in v @ method_calls_in t"
| "stmt_method_calls (ExprStmt e) = method_calls_in e"
| "stmt_method_calls (Raise e) = method_calls_in e"
| "stmt_method_calls _ = []"

datatype interface =
    ArtifactFile
  | PluginCommandLine
  | TabSeparatedFile
  | OtherFile
  | OtherShell

definition tab :: string where
  "tab = [CHR 0x09]"

text \<open>
  The interface a method call goes through, if it reaches outside the interpreter:
  \<^verbatim>\<open>q2.Artifact.load\<close> and \<^verbatim>\<open>.save\<close> read and write the archive format of the framework,
  \<^verbatim>\<open>q2.Metadata.load\<close> reads a tab-separated metadata file, \<^verbatim>\<open>read_csv\<close> and \<^verbatim>\<open>to_csv\<close>
  read and write a delimited text file, tab-separated when \<^verbatim>\<open>sep\<close> is the tab character.
\<close>

definition call_interface :: "expr \<times> string \<times> expr list \<Rightarrow> interface list" where
  "call_interface c =
     (case c of (obj, m, args) \<Rightarrow>
        if m = ''load'' \<and> obj = Attr (Name ''q2'') ''Artifact'' then [ArtifactFile]
        else if m = ''load'' \<and> obj = Attr (Name ''q2'') ''Metadata'' then [TabSeparatedFile]
        else if m = ''save'' then [ArtifactFile]
        else if m = ''read_csv'' \<or> m = ''to_csv'' then
          (if keyword_arg ''sep'' args = Some (Str tab) then [TabSeparatedFile] else [OtherFile])
        else [])"

definition interfaces_of :: "stmt \<Rightarrow> interface list" where
  "interfaces_of s =
     (case shell_words s of
        Some ws \<Rightarrow> (case cli_action ws of Some act \<Rightarrow> [PluginCommandLine] | None \<Rightarrow> [OtherShell])
      | None \<Rightarrow> concat (map call_interface (stmt_method_calls s)))"

definition interfaces_used :: "cell list \<Rightarrow> interface list" where
  "interfaces_used nb = remdups (concat (map interfaces_of (stmts_of nb)))"

definition three_interfaces :: "interface list" where
  "three_interfaces = [ArtifactFile, PluginCommandLine, TabSeparatedFile]"

definition only_three_interfaces :: "cell list \<Rightarrow> bool" where
  "only_three_interfaces nb = list_all (\<lambda>i. i \<in> set three_interfaces) (interfaces_used nb)"

subsection \<open>Error handling and recorded warnings\<close>

fun is_handler :: "stmt \<Rightarrow> bool" where
  "is_handler (Raise e) = True"
| "is_handler (Compound k body) = (k = Try)"
| "is_handler _ = False"

text \<open>
  A statement processes errors or warnings when it raises, has a handler, or calls into
  the \<^verbatim>\<open>warnings\<close> module.
\<close>

definition processes_errors :: "stmt \<Rightarrow> bool" where
  "processes_errors s =
     (is_handler s \<or> list_ex (\<lambda>(obj, m, args). obj = Name ''warnings'') (stmt_method_calls s))"

definition no_error_processing :: "cell list \<Rightarrow> bool" where
  "no_error_processing nb = list_all (\<lambda>s. \<not> processes_errors s) (stmts_of nb)"

fun stderr_lines :: "cell_output \<Rightarrow> string list" where
  "stderr_lines (Stream Stderr ls) = ls"
| "stderr_lines _ = []"

text \<open>
  Python reports a warning on the standard error stream as
  \<^verbatim>\<open>file:line: Category: message\<close>, followed by the indented source line that issued it.
\<close>

definition warning_reports :: "cell list \<Rightarrow> string list" where
  "warning_reports nb =
     filter (\<lambda>l. \<not> prefix '' '' l)
       (concat (map stderr_lines (concat (map cell_outputs nb))))"

definition warning_origin :: "string \<Rightarrow> string" where
  "warning_origin l = takeWhile (\<lambda>c. c \<noteq> CHR '':'') l"

text \<open>Installed libraries live under \<^verbatim>\<open>site-packages\<close>.\<close>

definition from_library :: "string \<Rightarrow> bool" where
  "from_library l = sublist ''/site-packages/'' (warning_origin l)"

subsection \<open>Concurrency\<close>


definition top_package :: "string \<Rightarrow> string" where
  "top_package m = takeWhile (\<lambda>c. c \<noteq> CHR ''.'') m"


subsection \<open>Chaining of results\<close>


















section \<open>Running a notebook\<close>

text \<open>
  What running the cells in order does, as far as the notebook itself decides it: which
  names are bound, and which files are read and written, in which order. A call into a
  library is one step whose result is opaque. A name that is used before it is bound is a
  \<^verbatim>\<open>NameError\<close>. The compound statements of Python are outside this model and reported as
  such.
\<close>

datatype event = Read string | Write string

datatype error =
    NameError string
  | UnknownPath
  | Raised
  | Unsupported compound_kind

text \<open>A binding records the string a name is bound to, when it is bound to a literal.\<close>

record state =
  bindings :: "(string \<times> string option) list"
  trace :: "event list"

text \<open>The builtin names the notebooks refer to (an excerpt of the builtins of Python).\<close>

definition builtin_names :: "string list" where
  "builtin_names =
     [''str'', ''int'', ''float'', ''bool'', ''list'', ''dict'', ''len'', ''print'',
      ''Warning'', ''UserWarning'', ''RuntimeWarning'', ''DeprecationWarning'',
      ''FutureWarning'']"

definition initial_state :: state where
  "initial_state = \<lparr>bindings = map (\<lambda>n. (n, None)) builtin_names, trace = []\<rparr>"

text \<open>The names an expression loads, in evaluation order.\<close>

fun names_in :: "expr \<Rightarrow> string list" where
  "names_in (Name n) = [n]"
| "names_in (Str s) = []"
| "names_in (Num i) = []"
| "names_in (BoolC b) = []"
| "names_in (Attr e a) = names_in e"
| "names_in (Call f args) = names_in f @ concat (map names_in args)"
| "names_in (Kw k e) = names_in e"
| "names_in (Subscript e i) = names_in e @ names_in i"
| "names_in (ListE es) = concat (map names_in es)"
| "names_in (TupleE es) = concat (map names_in es)"
| "names_in (DictE es) = concat (map names_in es)"
| "names_in (Item k v) = names_in k @ names_in v"

definition unbound_name :: "state \<Rightarrow> string list \<Rightarrow> string option" where
  "unbound_name s ns =
     (case filter (\<lambda>n. n \<notin> set (map fst (bindings s))) ns of
        [] \<Rightarrow> None
      | n # rest \<Rightarrow> Some n)"

text \<open>\<^verbatim>\<open>os.path.join(p, q)\<close>.\<close>

fun join_paths :: "string option list \<Rightarrow> string option" where
  "join_paths [Some p, Some q] =
     Some (if prefix ''/'' q then q
           else if p = [] \<or> suffix ''/'' p then p @ q
           else p @ ''/'' @ q)"
| "join_paths ps = None"

text \<open>The path an argument denotes, when the notebook fixes it.\<close>

fun path_value :: "(string \<times> string option) list \<Rightarrow> expr \<Rightarrow> string option" where
  "path_value b (Str s) = Some s"
| "path_value b (Name n) = (case map_of b n of Some v \<Rightarrow> v | None \<Rightarrow> None)"
| "path_value b (Call f args) =
     (if f = Attr (Attr (Name ''os'') ''path'') ''join''
      then join_paths (map (path_value b) args) else None)"
| "path_value b e = None"

text \<open>
  The file a method call reads or writes: \<^verbatim>\<open>q2.Artifact.load\<close>, \<^verbatim>\<open>q2.Metadata.load\<close> and
  \<^verbatim>\<open>pd.read_csv\<close> read their first argument, \<^verbatim>\<open>.save\<close> and \<^verbatim>\<open>.to_csv\<close> write it.
\<close>

definition file_access :: "expr \<times> string \<times> expr list \<Rightarrow> (string \<Rightarrow> event) option" where
  "file_access c =
     (case c of (obj, m, args) \<Rightarrow>
        if m = ''load'' \<and> (obj = Attr (Name ''q2'') ''Artifact'' \<or> obj = Attr (Name ''q2'') ''Metadata'')
          then Some Read
        else if m = ''read_csv'' \<and> obj = Name ''pd'' then Some Read
        else if m = ''save'' \<or> m = ''to_csv'' then Some Write
        else None)"

definition argument_path :: "(string \<times> string option) list \<Rightarrow> expr list \<Rightarrow> string option" where
  "argument_path b args = (case args of [] \<Rightarrow> None | a # rest \<Rightarrow> path_value b a)"

fun call_events ::
  "(string \<times> string option) list \<Rightarrow> (expr \<times> string \<times> expr list) list \<Rightarrow> error + event list"
where
  "call_events b [] = Inr []"
| "call_events b (c # cs) =
     (case file_access c of
        None \<Rightarrow> call_events b cs
      | Some ev \<Rightarrow>
          (case argument_path b (snd (snd c)) of
             None \<Rightarrow> Inl UnknownPath
           | Some p \<Rightarrow>
               (case call_events b cs of Inl e \<Rightarrow> Inl e | Inr es \<Rightarrow> Inr (ev p # es))))"

text \<open>
  A plugin action on the command line reads the files of its \<^verbatim>\<open>--i-\<close> options and of its
  \<^verbatim>\<open>--m-...-file\<close> options, then writes the files of its \<^verbatim>\<open>--o-\<close> options. \<^verbatim>\<open>cd\<close> runs in a
  shell of its own and \<^verbatim>\<open>qiime dev refresh-cache\<close> rebuilds the cache of the deployment;
  neither touches a file of the tutorial.
\<close>

fun file_options :: "string list \<Rightarrow> string list" where
  "file_options (opt # v # rest) =
     (if prefix ''--i-'' opt \<or> (prefix ''--m-'' opt \<and> suffix ''-file'' opt)
      then v # file_options rest
      else file_options (v # rest))"
| "file_options opts = []"

definition shell_events :: "string list \<Rightarrow> event list" where
  "shell_events ws =
     (case cli_action ws of
        Some (p, a, opts) \<Rightarrow> map Read (file_options opts) @ map Write (option_values [''--o-''] opts)
      | None \<Rightarrow> [])"

definition bind_names :: "(string \<times> string option) list \<Rightarrow> state \<Rightarrow> state" where
  "bind_names nvs s = s\<lparr>bindings := rev nvs @ bindings s\<rparr>"

fun literal :: "expr \<Rightarrow> string option" where
  "literal (Str v) = Some v"
| "literal e = None"

text \<open>
  The names an assignment binds. An assignment to an attribute or an item binds no name
  and loads the names of its target.
\<close>

fun bound_by :: "expr \<Rightarrow> expr \<Rightarrow> (string \<times> string option) list" where
  "bound_by (Name n) v = [(n, literal v)]"
| "bound_by (TupleE ts) v = concat (map (\<lambda>t. case t of Name n \<Rightarrow> [(n, None)] | _ \<Rightarrow> []) ts)"
| "bound_by t v = []"

fun loaded_by_target :: "expr \<Rightarrow> string list" where
  "loaded_by_target (Name n) = []"
| "loaded_by_target (TupleE ts) = concat (map (\<lambda>t. case t of Name n \<Rightarrow> [] | _ \<Rightarrow> names_in t) ts)"
| "loaded_by_target t = names_in t"

definition eval_then :: "state \<Rightarrow> string list \<Rightarrow> (expr \<times> string \<times> expr list) list \<Rightarrow>
    (string \<times> string option) list \<Rightarrow> error + state" where
  "eval_then s ns calls nvs =
     (case unbound_name s ns of
        Some n \<Rightarrow> Inl (NameError n)
      | None \<Rightarrow>
          (case call_events (bindings s) calls of
             Inl e \<Rightarrow> Inl e
           | Inr es \<Rightarrow> Inr (bind_names nvs (s\<lparr>trace := trace s @ es\<rparr>))))"

fun exec_stmt :: "stmt \<Rightarrow> state \<Rightarrow> error + state" where
  "exec_stmt (Import m a) s =
     Inr (bind_names [(case a of None \<Rightarrow> top_package m | Some x \<Rightarrow> x, None)] s)"
| "exec_stmt (FromImport m ns) s = Inr (bind_names (map (\<lambda>n. (n, None)) ns) s)"
| "exec_stmt (Assign t v) s =
     eval_then s (names_in v @ loaded_by_target t) (method_calls_in v @ method_calls_in t)
       (bound_by t v)"
| "exec_stmt (ExprStmt e) s = eval_then s (names_in e) (method_calls_in e) []"
| "exec_stmt (Shell ws) s = Inr (s\<lparr>trace := trace s @ shell_events ws\<rparr>)"
| "exec_stmt (Raise e) s = Inl Raised"
| "exec_stmt (Compound k body) s = Inl (Unsupported k)"

fun exec_stmts :: "stmt list \<Rightarrow> state \<Rightarrow> error + state" where
  "exec_stmts [] s = Inr s"
| "exec_stmts (x # xs) s =
     (case exec_stmt x s of Inl e \<Rightarrow> Inl e | Inr s' \<Rightarrow> exec_stmts xs s')"

text \<open>Cell by cell, in the order of the cells.\<close>

fun run_cells :: "cell list \<Rightarrow> state \<Rightarrow> error + state" where
  "run_cells [] s = Inr s"
| "run_cells (c # cs) s =
     (case exec_stmts (cell_source c) s of Inl e \<Rightarrow> Inl e | Inr s' \<Rightarrow> run_cells cs s')"

definition run_notebook :: "cell list \<Rightarrow> error + state" where
  "run_notebook nb = run_cells nb initial_state"

definition run_trace :: "cell list \<Rightarrow> error + event list" where
  "run_trace nb = (case run_notebook nb of Inl e \<Rightarrow> Inl e | Inr s \<Rightarrow> Inr (trace s))"

definition completes :: "cell list \<Rightarrow> bool" where
  "completes nb = (case run_notebook nb of Inl e \<Rightarrow> False | Inr s \<Rightarrow> True)"

subsection \<open>Files read and written\<close>

fun reads_of :: "event list \<Rightarrow> string list" where
  "reads_of [] = []"
| "reads_of (Read p # es) = p # reads_of es"
| "reads_of (Write p # es) = reads_of es"

fun writes_of :: "event list \<Rightarrow> string list" where
  "writes_of [] = []"
| "writes_of (Read p # es) = writes_of es"
| "writes_of (Write p # es) = p # writes_of es"

text \<open>
  The inputs of a run: the files it reads that it has not written before, so that their
  content comes from outside the notebook.
\<close>

fun inputs_of :: "string list \<Rightarrow> event list \<Rightarrow> string list" where
  "inputs_of written [] = []"
| "inputs_of written (Read p # es) =
     (if p \<in> set written then inputs_of written es else p # inputs_of written es)"
| "inputs_of written (Write p # es) = inputs_of (p # written) es"

definition files_of :: "cell list \<Rightarrow> event list" where
  "files_of nb = (case run_trace nb of Inl e \<Rightarrow> [] | Inr es \<Rightarrow> es)"

text \<open>No file that some cell loads is written by any cell.\<close>

definition never_writes_loaded_file :: "cell list \<Rightarrow> bool" where
  "never_writes_loaded_file nb =
     list_all (\<lambda>p. p \<notin> set (reads_of (files_of nb))) (writes_of (files_of nb))"

definition inputs_unchanged :: "cell list \<Rightarrow> bool" where
  "inputs_unchanged nb =
     list_all (\<lambda>p. p \<notin> set (inputs_of [] (files_of nb))) (writes_of (files_of nb))"

subsection \<open>Straight-line code\<close>

fun is_compound :: "stmt \<Rightarrow> bool" where
  "is_compound (Compound k body) = True"
| "is_compound s = False"

text \<open>
  A call of a gemelli action from Python is a call of a name; the name is defined in the
  notebook only by an import from the plugin.
\<close>

definition gemelli_module :: string where
  "gemelli_module = ''qiime2.plugins.gemelli.actions''"

definition gemelli_calls :: "cell list \<Rightarrow> string list" where
  "gemelli_calls nb =
     remdups (map inv_action (filter (\<lambda>v. inv_plugin v = ''gemelli'' \<and> inv_channel v = PythonAPI)
       (invocations nb)))"

definition rebound_names :: "cell list \<Rightarrow> string list" where
  "rebound_names nb =
     concat (map (\<lambda>s. case s of Assign t v \<Rightarrow> map fst (bound_by t v) | _ \<Rightarrow> []) (stmts_of nb))"

definition straight_line :: "cell list \<Rightarrow> bool" where
  "straight_line nb =
     (list_all (\<lambda>s. \<not> is_compound s) (stmts_of nb) \<and>
      list_all (\<lambda>f. f \<in> set (names_from gemelli_module nb) \<and> f \<notin> set (rebound_names nb))
        (gemelli_calls nb))"

section \<open>The dataframe cells\<close>

text \<open>
  Two cells of each Python notebook compute a table with the dataframe library: the
  metadata by subject, and the merge of the metadata with the log-ratio exported by Qurro.
  The functions below follow the statements of these cells, over a model of the
  dataframes of pandas: a frame has a named index of row labels and named columns; a field
  is the text of the field in the file, or is missing (\<^verbatim>\<open>NaN\<close>). What \<^verbatim>\<open>read_csv\<close> returns
  is the content of the file and an argument of the cell.
\<close>

type_synonym field = "string option"

record frame =
  index_name :: "string option"
  columns :: "string list"
  rows :: "(string \<times> field list) list"

datatype frame_error =
    KeyError "string list"
  | InvalidIndexError
  | ValueError

definition labels :: "frame \<Rightarrow> string list" where
  "labels df = map fst (rows df)"

text \<open>
  \<^verbatim>\<open>read_csv\<close> renames a repeated column name (\<^verbatim>\<open>x\<close>, \<^verbatim>\<open>x.1\<close>), so that the names of the
  columns it returns are distinct, and fills a row up to the number of columns.
\<close>

definition read_csv_frame :: "frame \<Rightarrow> bool" where
  "read_csv_frame df =
     (distinct (columns df) \<and>
      list_all (\<lambda>r. length (snd r) = length (columns df)) (rows df))"

fun positions :: "string \<Rightarrow> string list \<Rightarrow> nat list" where
  "positions c [] = []"
| "positions c (x # xs) = (if x = c then [0] else []) @ map Suc (positions c xs)"

definition field_at :: "field list \<Rightarrow> nat \<Rightarrow> field" where
  "field_at vs p = (if p < length vs then vs ! p else None)"

definition missing_columns :: "string list \<Rightarrow> frame \<Rightarrow> string list" where
  "missing_columns cs df = filter (\<lambda>c. c \<notin> set (columns df)) cs"





text \<open>
  \<^verbatim>\<open>df.index = df.index.astype(str)\<close>: the labels as strings. In this model a label is
  the text of its field already, so the frame stays as it is; the index keeps its name.
\<close>

definition index_astype_str :: "frame \<Rightarrow> frame" where
  "index_astype_str df = df"

text \<open>\<^verbatim>\<open>df.index.name = n\<close>.\<close>

definition set_index_name :: "string \<Rightarrow> frame \<Rightarrow> frame" where
  "set_index_name n df = df\<lparr>index_name := Some n\<rparr>"

text \<open>
  The aggregation \<^verbatim>\<open>'first'\<close> of a group: the first field of the column that is not
  missing, and a missing field when all are.
\<close>

fun first_valid :: "field list \<Rightarrow> field" where
  "first_valid [] = None"
| "first_valid (None # vs) = first_valid vs"
| "first_valid (Some v # vs) = Some v"

definition column_fields :: "string \<Rightarrow> frame \<Rightarrow> field list" where
  "column_fields c df =
     (case positions c (columns df) of
        [] \<Rightarrow> []
      | p # ps \<Rightarrow> map (\<lambda>r. field_at (snd r) p) (rows df))"

text \<open>The rows whose field in column \<open>key\<close> is \<open>g\<close>.\<close>

definition group_rows :: "string \<Rightarrow> string \<Rightarrow> frame \<Rightarrow> frame" where
  "group_rows key g df =
     df\<lparr>rows := filter (\<lambda>r. list_ex (\<lambda>p. field_at (snd r) p = Some g) (positions key (columns df)))
                  (rows df)\<rparr>"

fun present :: "field list \<Rightarrow> string list" where
  "present [] = []"
| "present (None # vs) = present vs"
| "present (Some v # vs) = v # present vs"

text \<open>
  \<^verbatim>\<open>df.groupby(key).agg({c1: 'first', ..., cn: 'first'})\<close>: one row for every value of the
  column \<open>key\<close>, labelled with the value; rows whose key is missing belong to no group.
  The index is named after the key. The library sorts the groups by key; the order of the
  rows is not modelled (the groups are listed as \<open>remdups\<close> leaves them) and nothing below
  depends on it. A key or an aggregated column that is no column, or that names several
  columns, is an error.
\<close>

definition groupby_agg_first :: "string \<Rightarrow> string list \<Rightarrow> frame \<Rightarrow> frame_error + frame" where
  "groupby_agg_first key cs df =
     (if missing_columns (key # cs) df \<noteq> [] then Inl (KeyError (missing_columns (key # cs) df))
      else if list_ex (\<lambda>c. length (positions c (columns df)) \<noteq> 1) (key # cs) then Inl ValueError
      else
        Inr \<lparr>index_name = Some key,
             columns = cs,
             rows = map (\<lambda>g. (g, map (\<lambda>c. first_valid (column_fields c (group_rows key g df))) cs))
                      (remdups (present (column_fields key df)))\<rparr>)"

subsection \<open>The metadata by subject\<close>

text \<open>
  \<^verbatim>\<open>
  mf = pd.read_csv('IBD-2538/data/metadata.tsv', sep='\t', index_col=0)
  mf = mf.groupby('host_subject_id').agg({'ibd':'first','active_disease':'first'})
  mf.index.name = '#SampleID'
  mf.to_csv('IBD-2538/data/subject-metadata.tsv', sep='\t')
  \<close>
  in the IBD tutorial and in the phylogenetic IBD tutorial; the argument is the frame read
  from \<^verbatim>\<open>metadata.tsv\<close>, the result the frame that is written and later passed to the plot.
\<close>

definition ibd_subject_metadata :: "frame \<Rightarrow> frame_error + frame" where
  "ibd_subject_metadata mf =
     (case groupby_agg_first ''host_subject_id'' [''ibd'', ''active_disease''] mf of
        Inl e \<Rightarrow> Inl e
      | Inr mf' \<Rightarrow> Inr (set_index_name ''#SampleID'' mf'))"

text \<open>
  \<^verbatim>\<open>
  mf = pd.read_csv('ECAM-Qiita-10249/metadata.tsv', sep='\t', index_col=0)
  mf = mf.groupby('host_subject_id').agg({'delivery':'first','antiexposedall':'first'})
  mf.index.name = '#SampleID'
  mf.index = mf.index.astype(str)
  mf.to_csv('ECAM-Qiita-10249/subject-metadata.tsv', sep='\t')
  \<close>
  in the TEMPTED tutorial.
\<close>

definition tempted_subject_metadata :: "frame \<Rightarrow> frame_error + frame" where
  "tempted_subject_metadata mf =
     (case groupby_agg_first ''host_subject_id'' [''delivery'', ''antiexposedall''] mf of
        Inl e \<Rightarrow> Inl e
      | Inr mf' \<Rightarrow> Inr (index_astype_str (set_index_name ''#SampleID'' mf')))"

text \<open>
  The field of column \<open>c\<close> in the first sample (row) of subject \<open>g\<close>, as the specification
  words the aggregation.
\<close>

definition first_sample_field :: "string \<Rightarrow> string \<Rightarrow> frame \<Rightarrow> field" where
  "first_sample_field c g df =
     (case column_fields c (group_rows ''host_subject_id'' g df) of
        [] \<Rightarrow> None
      | v # vs \<Rightarrow> v)"

subsection \<open>The merge of the log-ratio\<close>




subsection \<open>Example tables\<close>

text \<open>
  Sample metadata in which the first sample of subject \<^verbatim>\<open>s1000100\<close> has no value for
  \<^verbatim>\<open>ibd\<close>, and one sample has no subject.
\<close>

definition metadata_with_gaps :: frame where
  "metadata_with_gaps =
     \<lparr>index_name = Some ''sample_name'',
      columns = [''host_subject_id'', ''ibd'', ''active_disease'', ''timepoint''],
      rows =
        [(''2538.1000102'', [Some ''s1000100'', None, Some ''quiescent'', Some ''25'']),
         (''2538.1000104000004'', [Some ''s1000100'', Some ''Control'', Some ''quiescent'', Some ''6'']),
         (''2538.1000201'', [Some ''s1000200'', Some ''Control'', None, Some ''1'']),
         (''2538.1000999'', [None, Some ''Crohns'', None, Some ''1''])]\<rparr>"



section \<open>Auxiliary facts\<close>

subsection \<open>Sequential execution\<close>




lemma completes_iff_trace:
  "completes nb = (case run_trace nb of Inl e \<Rightarrow> False | Inr es \<Rightarrow> True)"
  by (simp add: completes_def run_trace_def split: sum.splits)

subsection \<open>The files the notebooks read and write, in order\<close>

lemma ibd_tutorial_trace:
  "run_trace ibd_tutorial =
     Inr [Read ''IBD-2538/data/table.qza'',
          Read ''IBD-2538/data/rarefied-table.qza'',
          Read ''IBD-2538/data/metadata.tsv'',
          Read ''IBD-2538/data/sepp-insertion-tree.qza'',
          Read ''IBD-2538/data/taxonomy.qza'',
          Write ''IBD-2538/core-metric-output/unweighted-unifrac-distance-pcoa.qzv'',
          Write ''IBD-2538/core-metric-output/weighted-unifrac-distance-pcoa.qzv'',
          Write ''IBD-2538/core-metric-output/RPCA-biplot.qzv'',
          Read ''IBD-2538/data/metadata.tsv'',
          Write ''IBD-2538/data/subject-metadata.tsv'',
          Write ''IBD-2538/ctf-results/subject_biplot.qzv'',
          Write ''IBD-2538/ctf-results/qurro.qzv'',
          Read ''IBD-2538/data/metadata.tsv'',
          Read ''IBD-2538/ctf-results/sample_plot_data.tsv'',
          Write ''IBD-2538/ctf-results/merged_sample_plot_data.tsv'',
          Write ''IBD-2538/ctf-results/log_ratio_plot.qzv'',
          Write ''IBD-2538/ctf-results/lme_log_ratio.qzv'']"
  by code_simp

lemma phylo_ibd_tutorial_trace:
  "run_trace phylo_ibd_tutorial =
     Inr [Read ''IBD-2538/data/table.qza'',
          Read ''IBD-2538/data/rarefied-table.qza'',
          Read ''IBD-2538/data/metadata.tsv'',
          Read ''IBD-2538/data/sepp-insertion-tree.qza'',
          Read ''IBD-2538/data/taxonomy.qza'',
          Read ''IBD-2538/data/metadata.tsv'',
          Write ''IBD-2538/data/subject-metadata.tsv'',
          Write ''IBD-2538/ctf-results/empress.qzv'',
          Write ''IBD-2538/ctf-results/qurro.qzv'',
          Read ''IBD-2538/data/metadata.tsv'',
          Read ''IBD-2538/ctf-results/sample_plot_data.tsv'',
          Write ''IBD-2538/ctf-results/merged_sample_plot_data.tsv'',
          Write ''IBD-2538/ctf-results/log_ratio_plot.qzv'',
          Write ''IBD-2538/ctf-results/lme_log_ratio.qzv'']"
  by code_simp

lemma phylo_rpca_moving_pictures_trace:
  "run_trace phylo_rpca_moving_pictures =
     Inr [Read ''qiime2-moving-pictures-tutorial/table.qza'',
          Read ''qiime2-moving-pictures-tutorial/rooted-tree.qza'',
          Read ''qiime2-moving-pictures-tutorial/taxonomy.qza'',
          Write ''qiime2-moving-pictures-tutorial/phylo-ordination.qza'',
          Write ''qiime2-moving-pictures-tutorial/phylo-distance.qza'',
          Write ''qiime2-moving-pictures-tutorial/phylo-tree.qza'',
          Write ''qiime2-moving-pictures-tutorial/phylo-table.qza'',
          Write ''qiime2-moving-pictures-tutorial/phylo-taxonomy.qza'',
          Read ''qiime2-moving-pictures-tutorial/phylo-tree.qza'',
          Read ''qiime2-moving-pictures-tutorial/phylo-table.qza'',
          Read ''qiime2-moving-pictures-tutorial/phylo-ordination.qza'',
          Read ''qiime2-moving-pictures-tutorial/sample-metadata.tsv'',
          Read ''qiime2-moving-pictures-tutorial/phylo-taxonomy.qza'',
          Write ''qiime2-moving-pictures-tutorial/phylo-empress.qzv'',
          Read ''qiime2-moving-pictures-tutorial/phylo-distance.qza'',
          Read ''qiime2-moving-pictures-tutorial/sample-metadata.tsv'',
          Write ''qiime2-moving-pictures-tutorial/phylo-BodySite_significance.qzv'',
          Read ''qiime2-moving-pictures-tutorial/phylo-ordination.qza'',
          Read ''qiime2-moving-pictures-tutorial/phylo-table.qza'',
          Read ''qiime2-moving-pictures-tutorial/sample-metadata.tsv'',
          Read ''qiime2-moving-pictures-tutorial/phylo-taxonomy.qza'',
          Write ''qiime2-moving-pictures-tutorial/phylo-qurro_plot.qzv'',
          Read ''ECAM-Qiita-10249/table.qza'',
          Read ''ECAM-Qiita-10249/metadata.tsv'',
          Read ''ECAM-Qiita-10249/insertion-tree.qza'',
          Read ''ECAM-Qiita-10249/taxonomy.qza'',
          Read ''ECAM-Qiita-10249/metadata.tsv'',
          Write ''ECAM-Qiita-10249/subject-metadata.tsv'',
          Write ''ECAM-Qiita-10249/subject_biplot.qzv'',
          Write ''ECAM-Qiita-10249/qurro.qzv'',
          Read ''ECAM-Qiita-10249/metadata.tsv'',
          Read ''ECAM-Qiita-10249/sample_plot_data.tsv'',
          Write ''ECAM-Qiita-10249/merged_sample_plot_data.tsv'',
          Write ''ECAM-Qiita-10249/log_ratio_plot.qzv'',
          Write ''ECAM-Qiita-10249/lme_log_ratio.qzv'']"
  by code_simp

lemmas files_ibd_tutorial =
  files_of_def [of ibd_tutorial, unfolded ibd_tutorial_trace sum.case]

lemmas files_phylo_ibd_tutorial =
  files_of_def [of phylo_ibd_tutorial, unfolded phylo_ibd_tutorial_trace sum.case]

lemmas files_phylo_rpca_moving_pictures =
  files_of_def [of phylo_rpca_moving_pictures, unfolded phylo_rpca_moving_pictures_trace sum.case]

subsection \<open>Columns and fields\<close>

lemma positions_absent: "c \<notin> set cs \<Longrightarrow> positions c cs = []"
  by (induction cs) auto

lemma positions_distinct:
  "distinct cs \<Longrightarrow> c \<in> set cs \<Longrightarrow> \<exists>p. positions c cs = [p] \<and> p < length cs \<and> cs ! p = c"
proof (induction cs)
  case Nil
  then show ?case by simp
next
  case (Cons x xs)
  show ?case
  proof (cases "x = c")
    case True
    with Cons.prems have "c \<notin> set xs" by auto
    then have "positions c xs = []" by (rule positions_absent)
    with True show ?thesis by simp
  next
    case False
    with Cons.prems have "distinct xs" "c \<in> set xs" by auto
    from Cons.IH [OF this] obtain p where "positions c xs = [p]" "p < length xs" "xs ! p = c"
      by blast
    with False show ?thesis by simp
  qed
qed

lemma missing_columns_empty: "set cs \<subseteq> set (columns df) \<Longrightarrow> missing_columns cs df = []"
  by (auto simp: missing_columns_def filter_empty_conv)





lemma index_astype_str_id: "index_astype_str df = df"
  by (simp add: index_astype_str_def)

subsection \<open>The first valid field\<close>

lemma first_valid_None: "first_valid fs = None \<longleftrightarrow> (\<forall>f \<in> set fs. f = None)"
  by (induction fs rule: first_valid.induct) auto

lemma first_valid_Some:
  "first_valid fs = Some v \<longleftrightarrow>
     (\<exists>pre post. fs = pre @ Some v # post \<and> (\<forall>f \<in> set pre. f = None))"
proof (induction fs rule: first_valid.induct)
  case 1
  then show ?case by simp
next
  case (2 vs)
  show ?case
  proof
    assume "first_valid (None # vs) = Some v"
    with 2 obtain pre post where "vs = pre @ Some v # post" "\<forall>f \<in> set pre. f = None"
      by auto
    then have "None # vs = (None # pre) @ Some v # post \<and> (\<forall>f \<in> set (None # pre). f = None)"
      by simp
    then show "\<exists>pre post. None # vs = pre @ Some v # post \<and> (\<forall>f \<in> set pre. f = None)"
      by blast
  next
    assume "\<exists>pre post. None # vs = pre @ Some v # post \<and> (\<forall>f \<in> set pre. f = None)"
    then obtain pre post where h: "None # vs = pre @ Some v # post" "\<forall>f \<in> set pre. f = None"
      by blast
    then obtain pre' where "pre = None # pre'"
      by (cases pre) auto
    with h have "vs = pre' @ Some v # post" "\<forall>f \<in> set pre'. f = None" by auto
    with 2 show "first_valid (None # vs) = Some v" by auto
  qed
next
  case (3 w vs)
  show ?case
  proof
    assume "first_valid (Some w # vs) = Some v"
    then have "Some w # vs = [] @ Some v # vs \<and> (\<forall>f \<in> set []. f = None)" by simp
    then show "\<exists>pre post. Some w # vs = pre @ Some v # post \<and> (\<forall>f \<in> set pre. f = None)"
      by blast
  next
    assume "\<exists>pre post. Some w # vs = pre @ Some v # post \<and> (\<forall>f \<in> set pre. f = None)"
    then obtain pre post where h: "Some w # vs = pre @ Some v # post" "\<forall>f \<in> set pre. f = None"
      by blast
    then have "pre = []" by (cases pre) auto
    with h show "first_valid (Some w # vs) = Some v" by simp
  qed
qed

lemma first_valid_hd: "fs = v # vs \<Longrightarrow> v \<noteq> None \<Longrightarrow> first_valid fs = v"
  by (cases v) auto

lemma first_sample_field_valid:
  "first_sample_field c g df \<noteq> None \<Longrightarrow>
     first_valid (column_fields c (group_rows ''host_subject_id'' g df)) = first_sample_field c g df"
  unfolding first_sample_field_def
  by (cases "column_fields c (group_rows ''host_subject_id'' g df)") (auto intro: first_valid_hd)

lemma set_present: "set (present fs) = {g. Some g \<in> set fs}"
  by (induction fs rule: present.induct) auto

subsection \<open>Grouping by subject\<close>

lemma groupby_agg_first_result:
  assumes "distinct (columns df)" and "set (key # cs) \<subseteq> set (columns df)"
  shows "groupby_agg_first key cs df =
           Inr \<lparr>index_name = Some key, columns = cs,
                rows = map (\<lambda>g. (g, map (\<lambda>c. first_valid (column_fields c (group_rows key g df))) cs))
                         (remdups (present (column_fields key df)))\<rparr>"
proof -
  have m: "missing_columns (key # cs) df = []"
    using assms(2) by (rule missing_columns_empty)
  have "\<And>c. c \<in> set (key # cs) \<Longrightarrow> length (positions c (columns df)) = 1"
  proof -
    fix c assume "c \<in> set (key # cs)"
    with assms(2) have "c \<in> set (columns df)" by blast
    from positions_distinct [OF assms(1) this] show "length (positions c (columns df)) = 1"
      by auto
  qed
  then have u: "\<not> list_ex (\<lambda>c. length (positions c (columns df)) \<noteq> 1) (key # cs)"
    by (simp add: list_ex_iff)
  show ?thesis
    unfolding groupby_agg_first_def using m u by simp
qed

lemma subject_rows:
  assumes "distinct (columns mf)" and "set (''host_subject_id'' # cs) \<subseteq> set (columns mf)"
    and "groupby_agg_first ''host_subject_id'' cs mf = Inr out"
  shows "index_name out = Some ''host_subject_id'' \<and> columns out = cs \<and>
     distinct (labels out) \<and>
     set (labels out) = {g. Some g \<in> set (column_fields ''host_subject_id'' mf)} \<and>
     (\<forall>r \<in> set (rows out). length (snd r) = length cs \<and>
        (\<forall>i < length cs.
           snd r ! i = first_valid (column_fields (cs ! i) (group_rows ''host_subject_id'' (fst r) mf))))"
proof -
  let ?gs = "remdups (present (column_fields ''host_subject_id'' mf))"
  let ?row = "\<lambda>g. (g, map (\<lambda>c. first_valid (column_fields c (group_rows ''host_subject_id'' g mf))) cs)"
  have out: "out = \<lparr>index_name = Some ''host_subject_id'', columns = cs, rows = map ?row ?gs\<rparr>"
    using assms(3) unfolding groupby_agg_first_result [OF assms(1,2)] by simp
  have l: "labels out = ?gs"
    unfolding labels_def out by (simp add: comp_def)
  have r: "\<And>r. r \<in> set (rows out) \<Longrightarrow> snd r = snd (?row (fst r))"
    unfolding out by auto
  show ?thesis
  proof (intro conjI ballI allI impI)
    show "index_name out = Some ''host_subject_id''" by (simp add: out)
    show "columns out = cs" by (simp add: out)
    show "distinct (labels out)" by (simp add: l)
    show "set (labels out) = {g. Some g \<in> set (column_fields ''host_subject_id'' mf)}"
      by (simp add: l set_present)
  next
    fix r assume "r \<in> set (rows out)"
    then show "length (snd r) = length cs" using r by simp
  next
    fix r i assume "r \<in> set (rows out)" "i < length cs"
    then show "snd r ! i =
        first_valid (column_fields (cs ! i) (group_rows ''host_subject_id'' (fst r) mf))"
      using r by simp
  qed
qed

subsection \<open>Merging the log-ratio\<close>



section \<open>Properties\<close>

subsection \<open>Kinds of cells\<close>

text \<open>
  C1, as stated: every code cell only loads serialized artifacts, calls plugin actions or
  manipulates dataframes. This fails at the first code cell of the IBD tutorial, which
  imports modules and configures the warnings filter of the interpreter besides loading
  its artifacts.
\<close>

theorem first_cell_not_only_three_kinds:
  "\<not> only_three_kinds ibd_tutorial ibd_tutorial_cell_2 \<and>
   WarningsConfig \<in> set (cell_kinds ibd_tutorial ibd_tutorial_cell_2)"
  by code_simp

text \<open>
  C1, amended: every statement of every code cell loads a serialized artifact or metadata
  file, calls a plugin action (from Python or as \<^verbatim>\<open>qiime plugin action\<close>), manipulates a
  dataframe, or is of one of six auxiliary kinds: a module import, a configuration of the
  warnings filter, a write of a result file (\<^verbatim>\<open>save\<close>, \<^verbatim>\<open>to_csv\<close>), the display of a
  variable, the binding of a string constant, or a shell command that is not a plugin
  action (\<^verbatim>\<open>cd\<close> and \<^verbatim>\<open>qiime dev refresh-cache\<close>, and no other). No statement is outside
  these kinds.
\<close>

theorem statement_kinds_of_the_notebooks:
  "set (kinds_used ibd_tutorial) =
     {LoadArtifact, PluginAction, DataframeOp, ImportModule, WarningsConfig, WriteFile,
      ConstantBinding, Display} \<and>
   set (kinds_used phylo_ibd_tutorial) =
     {LoadArtifact, PluginAction, DataframeOp, ImportModule, WarningsConfig, WriteFile,
      Display} \<and>
   set (kinds_used phylo_rpca_moving_pictures) =
     {LoadArtifact, PluginAction, DataframeOp, ImportModule, WarningsConfig, WriteFile,
      Display, ShellCommand} \<and>
   filter (\<lambda>s. stmt_kind (plugin_names phylo_rpca_moving_pictures) s = ShellCommand)
       (stmts_of phylo_rpca_moving_pictures) =
     [Shell [''cd'', ''qiime2-moving-pictures-tutorial''],
      Shell [''qiime'', ''dev'', ''refresh-cache'']]"
  by code_simp

subsection \<open>Straight-line code\<close>

text \<open>
  C2: no notebook defines a function or a class or has a loop or a conditional: every
  statement is a simple statement, and every gemelli action called from Python is a name
  imported from the plugin and bound nowhere else. Running the cells of a notebook in
  order from the initial state therefore takes one step for each statement and ends in a
  final state, with no name used before it is bound.
\<close>

theorem notebooks_are_straight_line:
  "straight_line ibd_tutorial \<and> completes ibd_tutorial \<and>
   straight_line phylo_ibd_tutorial \<and> completes phylo_ibd_tutorial \<and>
   straight_line phylo_rpca_moving_pictures \<and> completes phylo_rpca_moving_pictures"
  unfolding completes_iff_trace ibd_tutorial_trace phylo_ibd_tutorial_trace
    phylo_rpca_moving_pictures_trace
  by code_simp

subsection \<open>The factorization methods\<close>

text \<open>
  C3, as stated: the factorization methods the notebooks run are exactly CTF,
  phylogenetic CTF, phylogenetic RPCA and TEMPTED. This fails: the IBD tutorial also
  runs \<^verbatim>\<open>rpca\<close>, Robust Aitchison PCA without phylogeny.
\<close>

theorem not_exactly_the_named_methods:
  "\<not> runs_exactly_named_methods notebooks"
  by code_simp

text \<open>
  C3, amended: each of the four named methods is invoked by a cell, both through the
  Python API and on the command line somewhere; the factorization methods the notebooks
  run are these four and plain RPCA. The gemelli actions invoked are \<^verbatim>\<open>rpca\<close> and \<^verbatim>\<open>ctf\<close>
  in the IBD tutorial, \<^verbatim>\<open>phylogenetic_ctf_with_taxonomy\<close> in the phylogenetic IBD tutorial,
  and \<^verbatim>\<open>phylogenetic-rpca-with-taxonomy\<close> (command line), \<^verbatim>\<open>clr_transformation\<close> and
  \<^verbatim>\<open>tempted_factorize\<close> in the moving-pictures file.
\<close>

theorem gemelli_methods_run:
  "invoked ''gemelli'' ibd_tutorial = [(PythonAPI, ''rpca''), (PythonAPI, ''ctf'')] \<and>
   invoked ''gemelli'' phylo_ibd_tutorial = [(PythonAPI, ''phylogenetic_ctf_with_taxonomy'')] \<and>
   invoked ''gemelli'' phylo_rpca_moving_pictures =
     [(CommandLine, ''phylogenetic_rpca_with_taxonomy''), (PythonAPI, ''clr_transformation''),
      (PythonAPI, ''tempted_factorize'')] \<and>
   set (methods_run notebooks) = set named_methods \<union> {RPCA} \<and>
   set (channels_used notebooks) = {PythonAPI, CommandLine}"
  by code_simp

subsection \<open>Interfaces\<close>

text \<open>
  C4, as stated: every interaction of a cell with its environment is an artifact load or
  save, a command-line invocation of a plugin action, or a tab-separated file. This fails
  in the moving-pictures file, whose first two code cells run the shell commands
  \<^verbatim>\<open>cd qiime2-moving-pictures-tutorial\<close> and \<^verbatim>\<open>qiime dev refresh-cache\<close>, neither of them a
  plugin action.
\<close>

theorem not_only_three_interfaces:
  "\<not> only_three_interfaces phylo_rpca_moving_pictures"
  by code_simp

text \<open>
  C4, amended: every statement that reads or writes a file or runs a command does so
  through an artifact load or save, a command-line invocation of a plugin action, a
  tab-separated file, or one of the two shell commands \<^verbatim>\<open>cd\<close> and
  \<^verbatim>\<open>qiime dev refresh-cache\<close>; no delimited file other than tab-separated ones is read or
  written. The two IBD tutorials use the artifact format and tab-separated files only.
\<close>

theorem interfaces_of_the_notebooks:
  "set (interfaces_used ibd_tutorial) = {ArtifactFile, TabSeparatedFile} \<and>
   set (interfaces_used phylo_ibd_tutorial) = {ArtifactFile, TabSeparatedFile} \<and>
   set (interfaces_used phylo_rpca_moving_pictures) =
     {ArtifactFile, PluginCommandLine, TabSeparatedFile, OtherShell} \<and>
   filter (\<lambda>s. OtherShell \<in> set (interfaces_of s)) (stmts_of phylo_rpca_moving_pictures) =
     [Shell [''cd'', ''qiime2-moving-pictures-tutorial''],
      Shell [''qiime'', ''dev'', ''refresh-cache'']]"
  by code_simp

subsection \<open>Errors and warnings\<close>

text \<open>
  C5, as stated: no cell suppresses or otherwise processes errors or warnings. This
  fails at the IBD tutorial, whose first code cell suppresses two categories of warnings.
\<close>

theorem warnings_are_suppressed:
  "\<not> no_error_processing ibd_tutorial"
  by code_simp

text \<open>
  C5, amended: no cell raises or has an exception handler; the only statements that
  process warnings are the two calls \<^verbatim>\<open>warnings.filterwarnings("ignore", category=DeprecationWarning)\<close>
  and \<^verbatim>\<open>warnings.simplefilter(action='ignore', category=FutureWarning)\<close>, once in each
  Python notebook; and every warning in the recorded outputs was issued from a file of an
  installed library (scikit-bio, q2-longitudinal).
\<close>

theorem error_processing_of_the_notebooks:
  "list_all (\<lambda>nb. list_all (\<lambda>s. \<not> is_handler s) (stmts_of nb)) notebooks \<and>
   list_all (\<lambda>nb. filter processes_errors (stmts_of nb) =
       [ExprStmt (Call (Attr (Name ''warnings'') ''filterwarnings'')
          [Str ''ignore'', Kw ''category'' (Name ''DeprecationWarning'')]),
        ExprStmt (Call (Attr (Name ''warnings'') ''simplefilter'')
          [Kw ''action'' (Str ''ignore''), Kw ''category'' (Name ''FutureWarning'')])])
     notebooks \<and>
   list_all (\<lambda>nb. list_all from_library (warning_reports nb)) notebooks \<and>
   map (\<lambda>nb. length (warning_reports nb)) notebooks = [3, 1, 1] \<and>
   map warning_origin (warning_reports ibd_tutorial) =
     [''/Users/cameronmartino/miniconda2/envs/qiime2-2019.7/lib/python3.6/site-packages/skbio/stats/ordination/_principal_coordinate_analysis.py'',
      ''/Users/cameronmartino/miniconda2/envs/qiime2-2019.7/lib/python3.6/site-packages/skbio/stats/ordination/_principal_coordinate_analysis.py'',
      ''/Users/cmartino/miniconda3/envs/qiime2-2021.2.songbird.mmvec/lib/python3.6/site-packages/q2_longitudinal/_longitudinal.py'']"
  by code_simp

subsection \<open>Chaining of results\<close>


subsection \<open>Sequential execution\<close>


subsection \<open>Input files\<close>

text \<open>
  C8, as stated: no cell writes a file that some cell loads. This fails in the
  moving-pictures file: the cell that runs \<^verbatim>\<open>qiime gemelli phylogenetic-rpca-with-taxonomy\<close>
  writes \<^verbatim>\<open>phylo-ordination.qza\<close> and four more artifacts, which later cells load.
\<close>

theorem intermediate_files_are_loaded:
  "\<not> never_writes_loaded_file phylo_rpca_moving_pictures"
  unfolding never_writes_loaded_file_def files_phylo_rpca_moving_pictures
  by code_simp

text \<open>
  C8, amended: no cell writes a file that a cell reads before the notebook has written
  it, so the input files of a notebook are unchanged by running it; in the two IBD
  tutorials no file at all is both written and loaded. The input files are listed. The
  files the moving-pictures file both writes and loads are the five artifacts produced by
  phylogenetic RPCA, each written before it is loaded.
\<close>

theorem input_files_unchanged:
  "inputs_unchanged ibd_tutorial \<and>
   never_writes_loaded_file ibd_tutorial \<and>
   inputs_unchanged phylo_ibd_tutorial \<and>
   never_writes_loaded_file phylo_ibd_tutorial \<and>
   inputs_unchanged phylo_rpca_moving_pictures \<and>
   set (inputs_of [] (files_of ibd_tutorial)) =
     {''IBD-2538/data/table.qza'', ''IBD-2538/data/rarefied-table.qza'',
      ''IBD-2538/data/metadata.tsv'', ''IBD-2538/data/sepp-insertion-tree.qza'',
      ''IBD-2538/data/taxonomy.qza'', ''IBD-2538/ctf-results/sample_plot_data.tsv''} \<and>
   set (inputs_of [] (files_of phylo_ibd_tutorial)) =
     {''IBD-2538/data/table.qza'', ''IBD-2538/data/rarefied-table.qza'',
      ''IBD-2538/data/metadata.tsv'', ''IBD-2538/data/sepp-insertion-tree.qza'',
      ''IBD-2538/data/taxonomy.qza'', ''IBD-2538/ctf-results/sample_plot_data.tsv''} \<and>
   set (inputs_of [] (files_of phylo_rpca_moving_pictures)) =
     {''qiime2-moving-pictures-tutorial/table.qza'',
      ''qiime2-moving-pictures-tutorial/rooted-tree.qza'',
      ''qiime2-moving-pictures-tutorial/taxonomy.qza'',
      ''qiime2-moving-pictures-tutorial/sample-metadata.tsv'',
      ''ECAM-Qiita-10249/table.qza'', ''ECAM-Qiita-10249/metadata.tsv'',
      ''ECAM-Qiita-10249/insertion-tree.qza'', ''ECAM-Qiita-10249/taxonomy.qza'',
      ''ECAM-Qiita-10249/sample_plot_data.tsv''} \<and>
   set (filter (\<lambda>p. p \<in> set (writes_of (files_of phylo_rpca_moving_pictures)))
       (reads_of (files_of phylo_rpca_moving_pictures))) =
     {''qiime2-moving-pictures-tutorial/phylo-ordination.qza'',
      ''qiime2-moving-pictures-tutorial/phylo-distance.qza'',
      ''qiime2-moving-pictures-tutorial/phylo-tree.qza'',
      ''qiime2-moving-pictures-tutorial/phylo-table.qza'',
      ''qiime2-moving-pictures-tutorial/phylo-taxonomy.qza''}"
  unfolding inputs_unchanged_def never_writes_loaded_file_def
    files_ibd_tutorial files_phylo_ibd_tutorial files_phylo_rpca_moving_pictures
  by code_simp

subsection \<open>The merged log-ratio table\<close>



subsection \<open>The metadata by subject\<close>

text \<open>
  C10, as stated: every retained column holds the value of the first-occurring sample of
  the subject. This fails when that value is missing: the first sample of subject
  \<^verbatim>\<open>s1000100\<close> has no \<^verbatim>\<open>ibd\<close>, and the table by subject has the \<^verbatim>\<open>ibd\<close> of the second
  sample.
\<close>

theorem first_sample_value_not_kept:
  "ibd_subject_metadata metadata_with_gaps =
     Inr \<lparr>index_name = Some ''#SampleID'', columns = [''ibd'', ''active_disease''],
          rows = [(''s1000100'', [Some ''Control'', Some ''quiescent'']),
                  (''s1000200'', [Some ''Control'', None])]\<rparr> \<and>
   first_sample_field ''ibd'' ''s1000100'' metadata_with_gaps = None"
  by code_simp

text \<open>
  C10, amended: the table by subject has its index named \<^verbatim>\<open>#SampleID\<close> and exactly one row
  for every distinct value of \<^verbatim>\<open>host_subject_id\<close> that is not missing; each retained column
  holds the first value among the samples of the subject that is not missing (and is
  missing when all are), which is the value of the first-occurring sample whenever that
  value is not missing.
\<close>

theorem subject_metadata_first_valid:
  assumes "(cell, cs) = (ibd_subject_metadata, [''ibd'', ''active_disease'']) \<or>
           (cell, cs) = (tempted_subject_metadata, [''delivery'', ''antiexposedall''])"
    and "read_csv_frame mf"
    and "set (''host_subject_id'' # cs) \<subseteq> set (columns mf)"
  shows "\<exists>out. cell mf = Inr out \<and>
     index_name out = Some ''#SampleID'' \<and> columns out = cs \<and>
     distinct (labels out) \<and>
     set (labels out) = {g. Some g \<in> set (column_fields ''host_subject_id'' mf)} \<and>
     (\<forall>r \<in> set (rows out). length (snd r) = length cs \<and>
        (\<forall>i < length cs. \<forall>v.
           (snd r ! i = Some v \<longleftrightarrow>
              (\<exists>pre post.
                 column_fields (cs ! i) (group_rows ''host_subject_id'' (fst r) mf) = pre @ Some v # post \<and>
                 (\<forall>f \<in> set pre. f = None))) \<and>
           (snd r ! i = None \<longleftrightarrow>
              (\<forall>f \<in> set (column_fields (cs ! i) (group_rows ''host_subject_id'' (fst r) mf)). f = None)) \<and>
           (first_sample_field (cs ! i) (fst r) mf \<noteq> None \<longrightarrow>
              snd r ! i = first_sample_field (cs ! i) (fst r) mf)))"
proof -
  have d: "distinct (columns mf)"
    using assms(2) by (simp add: read_csv_frame_def)
  from groupby_agg_first_result [OF d assms(3)]
  obtain agg where agg: "groupby_agg_first ''host_subject_id'' cs mf = Inr agg"
    by blast
  note props = subject_rows [OF d assms(3) agg]
  let ?out = "set_index_name ''#SampleID'' agg"
  have c: "cell mf = Inr ?out"
    using assms(1) agg
    by (auto simp: ibd_subject_metadata_def tempted_subject_metadata_def index_astype_str_id)
  have same: "columns ?out = columns agg" "rows ?out = rows agg" "labels ?out = labels agg"
    "index_name ?out = Some ''#SampleID''"
    by (simp_all add: set_index_name_def labels_def)
  have fields: "\<And>r i. r \<in> set (rows ?out) \<Longrightarrow> i < length cs \<Longrightarrow>
      snd r ! i = first_valid (column_fields (cs ! i) (group_rows ''host_subject_id'' (fst r) mf))"
    using props same by simp
  show ?thesis
  proof (intro exI [of _ ?out] conjI ballI allI impI)
    show "cell mf = Inr ?out" by (rule c)
    show "index_name ?out = Some ''#SampleID''" by (rule same)
    show "columns ?out = cs" using props same by simp
    show "distinct (labels ?out)" using props same by simp
    show "set (labels ?out) = {g. Some g \<in> set (column_fields ''host_subject_id'' mf)}"
      using props same by simp
  next
    fix r assume "r \<in> set (rows ?out)"
    then show "length (snd r) = length cs" using props same by simp
  next
    fix r i v assume "r \<in> set (rows ?out)" "i < length cs"
    from fields [OF this]
    show "snd r ! i = Some v \<longleftrightarrow>
        (\<exists>pre post.
           column_fields (cs ! i) (group_rows ''host_subject_id'' (fst r) mf) = pre @ Some v # post \<and>
           (\<forall>f \<in> set pre. f = None))"
      by (simp add: first_valid_Some)
  next
    fix r i assume "r \<in> set (rows ?out)" "i < length cs"
    from fields [OF this]
    show "snd r ! i = None \<longleftrightarrow>
        (\<forall>f \<in> set (column_fields (cs ! i) (group_rows ''host_subject_id'' (fst r) mf)). f = None)"
      by (simp add: first_valid_None)
  next
    fix r i
    assume "r \<in> set (rows ?out)" "i < length cs"
      and "first_sample_field (cs ! i) (fst r) mf \<noteq> None"
    with fields first_sample_field_valid
    show "snd r ! i = first_sample_field (cs ! i) (fst r) mf"
      by simp
  qed
qed

text \<open>
  C10, witness: sample metadata with missing fields, as read from a file.
\<close>

theorem subject_metadata_first_valid_witness:
  "read_csv_frame metadata_with_gaps \<and>
   set [''host_subject_id'', ''ibd'', ''active_disease''] \<subseteq> set (columns metadata_with_gaps) \<and>
   (\<exists>out. ibd_subject_metadata metadata_with_gaps = Inr out \<and>
      index_name out = Some ''#SampleID'' \<and> columns out = [''ibd'', ''active_disease''] \<and>
      distinct (labels out) \<and>
      set (labels out) = {g. Some g \<in> set (column_fields ''host_subject_id'' metadata_with_gaps)})"
proof -
  have h1: "read_csv_frame metadata_with_gaps" by code_simp
  have h2: "set (''host_subject_id'' # [''ibd'', ''active_disease'']) \<subseteq> set (columns metadata_with_gaps)"
    by code_simp
  from subject_metadata_first_valid [OF _ h1 h2, of ibd_subject_metadata]
  obtain out where "ibd_subject_metadata metadata_with_gaps = Inr out"
    "index_name out = Some ''#SampleID''" "columns out = [''ibd'', ''active_disease'']"
    "distinct (labels out)"
    "set (labels out) = {g. Some g \<in> set (column_fields ''host_subject_id'' metadata_with_gaps)}"
    by auto
  with h1 h2 show ?thesis by auto
qed

end
